theory Spec2Isabelle
  imports Main "HOL-Library.Word" "HOL-Library.DAList"
begin

section \<open>Go values used by the storage core\<close>

text \<open>
  \<open>int64\<close> is a 64-bit word: \<open>+\<close> wraps as Go's does, \<open>sint\<close> reads the signed value.
  A Go \<open>map[string]int64\<close> is either nil or a finite map with one entry per key: \<open>None\<close>
  is the nil map, \<open>Some m\<close> a map whose entries are an association list with distinct
  keys. Reading a nil map gives the zero value, assigning to it panics.
\<close>

type_synonym int64 = "64 word"

type_synonym usage_map = "(string, int64) alist"

datatype error = Errorf string

datatype panic = AssignmentToEntryInNilMap | NilPointerDereference | SliceBoundsOutOfRange

datatype 'a outcome = Returns 'a | Panics panic

definition mapIndex :: "usage_map option \<Rightarrow> string \<Rightarrow> int64" where
  "mapIndex m k =
     (case m of None \<Rightarrow> 0
      | Some al \<Rightarrow> (case DAList.lookup al k of None \<Rightarrow> 0 | Some v \<Rightarrow> v))"

definition mapAssign :: "usage_map option \<Rightarrow> string \<Rightarrow> int64 \<Rightarrow> usage_map option outcome" where
  "mapAssign m k v =
     (case m of None \<Rightarrow> Panics AssignmentToEntryInNilMap
      | Some al \<Rightarrow> Returns (Some (DAList.update k v al)))"

text \<open>\<open>for _, v := range m { total += v }\<close>: the entries are visited once each, in an
  order Go leaves open; the model visits them in the order of the association list.\<close>

definition rangeSum :: "usage_map option \<Rightarrow> int64" where
  "rangeSum m =
     (case m of None \<Rightarrow> 0
      | Some al \<Rightarrow> fold (\<lambda>kv total. total + snd kv) (DAList.impl_of al) 0)"

record URLObject =
  ShortID :: string
  URL :: string
  Version :: int64
  Expiration :: int64
  Usage :: "usage_map option"

section \<open>Time and day-bucket keys\<close>

text \<open>
  A \<open>time.Time\<close> is an instant, counted here in nanoseconds since Go's zero time
  (January 1, year 1, 00:00:00 UTC); a \<open>time.Duration\<close> is a number of nanoseconds.
  \<open>Truncate\<close> rounds down to a multiple of the duration since the zero time, \<open>Unix\<close>
  is the number of whole seconds since January 1, 1970 UTC, and \<open>UTC\<close> changes the
  location only, not the instant. \<open>time.Now()\<close> is an argument of every function
  that reads the clock, one argument for each read. Instants and Unix times are
  unbounded integers: a clock reading is far from the bounds of \<open>int64\<close>, and on a 64-bit
  platform the conversion \<open>int(...)\<close> of the Unix time keeps its value.
\<close>

type_synonym Time = int

type_synonym Duration = int

definition Second :: Duration where
  "Second = 1000000000"

definition Hour :: Duration where
  "Hour = 3600 * Second"

definition unixToInternal :: int where
  "unixToInternal = (1969 * 365 + 1969 div 4 - 1969 div 100 + 1969 div 400) * 86400"

definition Truncate :: "Time \<Rightarrow> Duration \<Rightarrow> Time" where
  "Truncate t d = (if d \<le> 0 then t else t - t mod d)"

definition Add :: "Time \<Rightarrow> Duration \<Rightarrow> Time" where
  "Add t d = t + d"

definition Unix :: "Time \<Rightarrow> int" where
  "Unix t = t div Second - unixToInternal"

definition UTCTimestampOfTodayRounded :: "Time \<Rightarrow> Time" where
  "UTCTimestampOfTodayRounded now = Truncate now (Hour * 24)"

text \<open>\<open>strconv.Itoa\<close>: the decimal digits, most significant first, after a minus sign
  for a negative number.\<close>

definition digits :: string where
  "digits = ''0123456789abcdefghijklmnopqrstuvwxyz''"

fun formatBits :: "nat \<Rightarrow> string" where
  "formatBits n =
     (if n < 10 then [digits ! n] else formatBits (n div 10) @ [digits ! (n mod 10)])"

declare formatBits.simps [simp del]

definition Itoa :: "int \<Rightarrow> string" where
  "Itoa i = (if i < 0 then CHR ''-'' # formatBits (nat (- i)) else formatBits (nat i))"

section \<open>The in-memory backend\<close>

text \<open>
  \<open>LocalStorage\<close> holds the map of records; its mutex serialises the four methods, so
  each is a function from the state before the call to the result and the state after.
  A method that panics leaves the state as it was at the panic. \<open>SaveURL\<close> gives every
  record a usage map of its own, so no two records share one, and a record is a value
  with its usage map in it; \<open>GetStatistics\<close> returns the map of the record as it is at
  the call.
\<close>

record LocalStorage =
  Objects :: "(string \<rightharpoonup> URLObject) option"

definition LocalStorage_SaveURL ::
  "LocalStorage \<Rightarrow> string \<Rightarrow> string \<Rightarrow> int64 \<Rightarrow> error option outcome \<times> LocalStorage" where
  "LocalStorage_SaveURL storage shortID url expiration =
     (case Objects storage of
        None \<Rightarrow> (Panics AssignmentToEntryInNilMap, storage)
      | Some objs \<Rightarrow>
          (case objs shortID of
             Some _ \<Rightarrow> (Returns None, storage)
           | None \<Rightarrow>
               (Returns None,
                storage\<lparr>Objects := Some (objs(shortID \<mapsto>
                  \<lparr>ShortID = shortID, URL = url, Version = 0,
                   Expiration = expiration, Usage = Some DAList.empty\<rparr>))\<rparr>)))"

definition LocalStorage_GetURL ::
  "Time \<Rightarrow> LocalStorage \<Rightarrow> string \<Rightarrow> (string \<times> error option) outcome \<times> LocalStorage" where
  "LocalStorage_GetURL now storage shortID =
     (case Objects storage of
        None \<Rightarrow> (Returns ('''', None), storage)
      | Some objs \<Rightarrow>
          (case objs shortID of
             None \<Rightarrow> (Returns ('''', None), storage)
           | Some object \<Rightarrow>
               (let todayTimestamp = Itoa (Unix (UTCTimestampOfTodayRounded now));
                    todayUsage = mapIndex (Usage object) todayTimestamp
                in case mapAssign (Usage object) todayTimestamp (todayUsage + 1) of
                     Panics p \<Rightarrow> (Panics p, storage)
                   | Returns usage' \<Rightarrow>
                       (Returns (URL object, None),
                        storage\<lparr>Objects :=
                          Some (objs(shortID \<mapsto> object\<lparr>Usage := usage'\<rparr>))\<rparr>))))"

definition LocalStorage_DeleteURL ::
  "LocalStorage \<Rightarrow> string \<Rightarrow> error option outcome \<times> LocalStorage" where
  "LocalStorage_DeleteURL storage shortID =
     (case Objects storage of
        None \<Rightarrow> (Returns None, storage)
      | Some objs \<Rightarrow> (Returns None, storage\<lparr>Objects := Some (objs(shortID := None))\<rparr>))"

definition LocalStorage_GetStatistics ::
  "LocalStorage \<Rightarrow> string \<Rightarrow> (usage_map option \<times> error option) outcome \<times> LocalStorage" where
  "LocalStorage_GetStatistics storage shortID =
     (case Objects storage of
        None \<Rightarrow> (Returns (Some DAList.empty, None), storage)
      | Some objs \<Rightarrow>
          (case objs shortID of
             None \<Rightarrow> (Returns (Some DAList.empty, None), storage)
           | Some object \<Rightarrow> (Returns (Usage object, None), storage)))"

text \<open>
  \<open>main\<close> and the tests build the backend as \<open>LocalStorage{Objects: map[string]URLObject{}}\<close>,
  and \<open>SaveURL\<close> is the only place that builds a record, with \<open>Usage: map[string]int64{}\<close>.
  So neither map is nil in a state of the running program: \<open>valid\<close> says so, and
  \<open>reachable\<close> are the states the four methods lead to from the initial one.
\<close>

definition newLocalStorage :: LocalStorage where
  "newLocalStorage = \<lparr>Objects = Some Map.empty\<rparr>"

definition valid :: "LocalStorage \<Rightarrow> bool" where
  "valid storage =
     (case Objects storage of
        None \<Rightarrow> False
      | Some objs \<Rightarrow> (\<forall>object \<in> ran objs. Usage object \<noteq> None))"

inductive reachable :: "LocalStorage \<Rightarrow> bool" where
  initial: "reachable newLocalStorage"
| save: "reachable s \<Longrightarrow> reachable (snd (LocalStorage_SaveURL s shortID url expiration))"
| get: "reachable s \<Longrightarrow> reachable (snd (LocalStorage_GetURL now s shortID))"
| delete: "reachable s \<Longrightarrow> reachable (snd (LocalStorage_DeleteURL s shortID))"
| statistics: "reachable s \<Longrightarrow> reachable (snd (LocalStorage_GetStatistics s shortID))"

section \<open>The remote backend\<close>

text \<open>
  The AWS SDK and the DynamoDB service are outside the repository. The table
  \<open>shortie-urls\<close> is a map from the primary key \<open>shortID\<close> to the stored item, and an item
  is written as the record it decodes to. \<open>MarshalMap\<close> and \<open>UnmarshalMap\<close> succeed on this
  struct; \<open>MarshalMap\<close> writes an empty map, like a nil one, as the NULL attribute, which
  decodes to a nil map: the item of a record with no usage yet has \<open>Usage = None\<close>, and
  \<open>getObject\<close> puts an empty map in its place on every read. Each
  SDK call either fails with the error the environment chooses (\<open>fault\<close>, a transport or
  service failure) and leaves the table alone, or does what DynamoDB documents: \<open>GetItem\<close>
  returns the item or none, \<open>PutItem\<close> rejects a request without an item and otherwise
  writes the whole item unless its condition \<open>attribute_not_exists(shortID)\<close> fails,
  \<open>DeleteItem\<close> removes the key and succeeds whether it was there or not.
\<close>

datatype awserr = AWSError string

fun Code :: "awserr \<Rightarrow> string" where
  "Code (AWSError c) = c"

definition ErrCodeConditionalCheckFailedException :: string where
  "ErrCodeConditionalCheckFailedException = ''ConditionalCheckFailedException''"

type_synonym table = "string \<rightharpoonup> URLObject"

definition GetItemWithContext :: "awserr option \<Rightarrow> table \<Rightarrow> string \<Rightarrow> awserr + URLObject option" where
  "GetItemWithContext fault tbl key =
     (case fault of Some e \<Rightarrow> Inl e | None \<Rightarrow> Inr (tbl key))"

definition PutItemWithContext ::
  "awserr option \<Rightarrow> bool \<Rightarrow> table \<Rightarrow> URLObject option \<Rightarrow> awserr option \<times> table" where
  "PutItemWithContext fault attribute_not_exists tbl item =
     (case item of
        None \<Rightarrow> (Some (AWSError ''InvalidParameter''), tbl)
      | Some item \<Rightarrow>
          (case fault of
             Some e \<Rightarrow> (Some e, tbl)
           | None \<Rightarrow>
               if attribute_not_exists \<and> tbl (ShortID item) \<noteq> None
               then (Some (AWSError ErrCodeConditionalCheckFailedException), tbl)
               else (None, tbl(ShortID item \<mapsto> item))))"

definition DeleteItemWithContext :: "awserr option \<Rightarrow> table \<Rightarrow> string \<Rightarrow> awserr option \<times> table" where
  "DeleteItemWithContext fault tbl key =
     (case fault of Some e \<Rightarrow> (Some e, tbl) | None \<Rightarrow> (None, tbl(key := None)))"

definition MarshalMap :: "URLObject \<Rightarrow> error + URLObject" where
  "MarshalMap object =
     Inr (object\<lparr>Usage :=
       (case Usage object of
          None \<Rightarrow> None
        | Some al \<Rightarrow> if DAList.impl_of al = [] then None else Some al)\<rparr>)"

definition UnmarshalMap :: "URLObject \<Rightarrow> error + URLObject" where
  "UnmarshalMap item = Inr item"

fun Error :: "error \<Rightarrow> string" where
  "Error (Errorf msg) = msg"

definition wrap :: "string \<Rightarrow> awserr \<Rightarrow> error" where
  "wrap msg err = Errorf (msg @ Code err)"

text \<open>
  The state of the remote backend: the table behind the client, and the goroutines that
  \<open>GetURL\<close> has started and that have not run yet, each with the record it captured.
\<close>

record DynamoStorage =
  items :: table
  spawned :: "URLObject list"

definition DynamoStorage_SaveURL ::
  "awserr option \<Rightarrow> DynamoStorage \<Rightarrow> string \<Rightarrow> string \<Rightarrow> int64
     \<Rightarrow> error option outcome \<times> DynamoStorage" where
  "DynamoStorage_SaveURL fault storage shortID url expiration =
     (let object = \<lparr>ShortID = shortID, URL = url, Version = 0,
                    Expiration = expiration, Usage = Some DAList.empty\<rparr>
      in case MarshalMap object of
           Inl err \<Rightarrow>
             (Returns (Some (Errorf (''failed to serialize url object: '' @ Error err))), storage)
         | Inr dynamoItem \<Rightarrow>
             (case PutItemWithContext fault True (items storage) (Some dynamoItem) of
                (Some awsErr, items') \<Rightarrow>
                  if Code awsErr = ErrCodeConditionalCheckFailedException
                  then (Returns None, storage\<lparr>items := items'\<rparr>)
                  else (Returns (Some (wrap ''failed to save a url: '' awsErr)),
                        storage\<lparr>items := items'\<rparr>)
              | (None, items') \<Rightarrow> (Returns None, storage\<lparr>items := items'\<rparr>)))"

definition DynamoStorage_getObject ::
  "awserr option \<Rightarrow> DynamoStorage \<Rightarrow> string \<Rightarrow> URLObject option \<times> error option" where
  "DynamoStorage_getObject fault storage shortID =
     (case GetItemWithContext fault (items storage) shortID of
        Inl awsErr \<Rightarrow> (None, Some (wrap ''failed to read a shortID: '' awsErr))
      | Inr None \<Rightarrow> (None, None)
      | Inr (Some item) \<Rightarrow>
          (case UnmarshalMap item of
             Inl err \<Rightarrow>
               (None, Some (Errorf (''failed to deserialize url object: '' @ Error err)))
           | Inr object \<Rightarrow>
               (Some (if Usage object = None then object\<lparr>Usage := Some DAList.empty\<rparr>
                      else object), None)))"

definition DynamoStorage_GetURL ::
  "awserr option \<Rightarrow> DynamoStorage \<Rightarrow> string
     \<Rightarrow> (string \<times> error option) outcome \<times> DynamoStorage" where
  "DynamoStorage_GetURL fault storage shortID =
     (case DynamoStorage_getObject fault storage shortID of
        (_, Some err) \<Rightarrow> (Returns ('''', Some err), storage)
      | (None, None) \<Rightarrow> (Returns ('''', None), storage)
      | (Some object, None) \<Rightarrow>
          (Returns (URL object, None), storage\<lparr>spawned := spawned storage @ [object]\<rparr>))"

text \<open>The body of the goroutine of \<open>GetURL\<close>, run at some later time on the record it
  captured: it writes the whole record back, and only logs a failure (after a failure of
  \<open>MarshalMap\<close> it still calls \<open>PutItem\<close>, with no item).\<close>

definition DynamoStorage_GetURL_func ::
  "Time \<Rightarrow> awserr option \<Rightarrow> URLObject \<Rightarrow> table \<Rightarrow> string list outcome \<times> table" where
  "DynamoStorage_GetURL_func now fault object tbl =
     (let todayTimestamp = Itoa (Unix (UTCTimestampOfTodayRounded now));
          todayUsage = mapIndex (Usage object) todayTimestamp
      in case mapAssign (Usage object) todayTimestamp (todayUsage + 1) of
           Panics p \<Rightarrow> (Panics p, tbl)
         | Returns usage' \<Rightarrow>
             (let (serialized, logged) =
                    (case MarshalMap (object\<lparr>Usage := usage'\<rparr>) of
                       Inl err \<Rightarrow> (None, [''failed to increment usage: '' @ Error err])
                     | Inr item \<Rightarrow> (Some item, []))
              in case PutItemWithContext fault False tbl serialized of
                   (Some awsErr, tbl') \<Rightarrow>
                     (Returns (logged @ [''failed to increment usage: '' @ Code awsErr]), tbl')
                 | (None, tbl') \<Rightarrow> (Returns logged, tbl')))"

definition DynamoStorage_DeleteURL ::
  "awserr option \<Rightarrow> DynamoStorage \<Rightarrow> string \<Rightarrow> error option outcome \<times> DynamoStorage" where
  "DynamoStorage_DeleteURL fault storage shortID =
     (case DeleteItemWithContext fault (items storage) shortID of
        (Some awsErr, items') \<Rightarrow>
          (Returns (Some (wrap ''failed to delete a url object: '' awsErr)),
           storage\<lparr>items := items'\<rparr>)
      | (None, items') \<Rightarrow> (Returns None, storage\<lparr>items := items'\<rparr>))"

definition DynamoStorage_GetStatistics ::
  "awserr option \<Rightarrow> DynamoStorage \<Rightarrow> string
     \<Rightarrow> (usage_map option \<times> error option) outcome \<times> DynamoStorage" where
  "DynamoStorage_GetStatistics fault storage shortID =
     (case DynamoStorage_getObject fault storage shortID of
        (_, Some err) \<Rightarrow> (Returns (None, Some err), storage)
      | (None, None) \<Rightarrow> (Panics NilPointerDereference, storage)
      | (Some object, None) \<Rightarrow> (Returns (Usage object, None), storage))"

section \<open>The HTTP handlers\<close>

text \<open>
  A handler receives the method of the configured backend as a function of the backend's
  state, and answers with what it writes to the response. A panic of the backend passes
  through the handler.
\<close>

datatype response =
    JSONError nat string
  | JSONShortUrl nat string
  | JSONStats nat int64 int64 int64
  | Text nat string
  | Redirect nat string
  | Status nat

definition StatusOK :: nat where
  "StatusOK = 200"

definition StatusTemporaryRedirect :: nat where
  "StatusTemporaryRedirect = 307"

definition StatusBadRequest :: nat where
  "StatusBadRequest = 400"

definition StatusNotFound :: nat where
  "StatusNotFound = 404"

definition StatusInternalServerError :: nat where
  "StatusInternalServerError = 500"

subsection \<open>Identifier generation\<close>

text \<open>
  \<open>uuid.NewSHA1(space, data)\<close> hashes the namespace followed by the data with SHA-1,
  copies the digest into the 16 bytes of the UUID and sets the version and variant bits;
  \<open>String\<close> is the hexadecimal form with four hyphens. The packages \<open>uuid\<close>,
  \<open>crypto/sha1\<close>, \<open>encoding/hex\<close> and \<open>strings\<close> are outside the repository; SHA-1 is
  written as the standard defines it: the padded message is cut into blocks of 64 bytes,
  each block is extended to 80 words and run through 80 rounds.
\<close>

type_synonym byte = "8 word"

type_synonym uint32 = "32 word"

definition padding :: "byte list \<Rightarrow> byte list" where
  "padding msg =
     (let len = length msg;
          zeros = (119 - len mod 64) mod 64;
          bits = (of_nat (8 * len) :: 64 word)
      in msg @ [0x80] @ replicate zeros 0 @
         map (\<lambda>i. ucast (drop_bit (8 * (7 - i)) bits)) [0..<8])"

definition RotateLeft32 :: "uint32 \<Rightarrow> nat \<Rightarrow> uint32" where
  "RotateLeft32 x k = or (push_bit k x) (drop_bit (32 - k) x)"

definition beUint32 :: "byte list \<Rightarrow> uint32" where
  "beUint32 b = or (or (push_bit 24 (ucast (b ! 0))) (push_bit 16 (ucast (b ! 1))))
                   (or (push_bit 8 (ucast (b ! 2))) (ucast (b ! 3)))"

definition putUint32 :: "uint32 \<Rightarrow> byte list" where
  "putUint32 x = [ucast (drop_bit 24 x), ucast (drop_bit 16 x), ucast (drop_bit 8 x), ucast x]"

fun words :: "byte list \<Rightarrow> uint32 list" where
  "words (b0 # b1 # b2 # b3 # p) = beUint32 [b0, b1, b2, b3] # words p"
| "words p = []"

function schedule :: "uint32 list \<Rightarrow> uint32 list" where
  "schedule w =
     (let t = length w
      in if 16 \<le> t \<and> t < 80
         then schedule (w @ [RotateLeft32 (xor (xor (w ! (t - 3)) (w ! (t - 8)))
                                               (xor (w ! (t - 14)) (w ! (t - 16)))) 1])
         else w)"
  by pat_completeness auto
termination
  by (relation "measure (\<lambda>w. 80 - length w)") auto

declare schedule.simps [simp del]

definition round_f :: "nat \<Rightarrow> uint32 \<Rightarrow> uint32 \<Rightarrow> uint32 \<Rightarrow> uint32" where
  "round_f t b c d =
     (if t < 20 then or (and b c) (and (not b) d)
      else if t < 40 then xor (xor b c) d
      else if t < 60 then or (or (and b c) (and b d)) (and c d)
      else xor (xor b c) d)"

definition round_k :: "nat \<Rightarrow> uint32" where
  "round_k t =
     (if t < 20 then 0x5A827999 else if t < 40 then 0x6ED9EBA1
      else if t < 60 then 0x8F1BBCDC else 0xCA62C1D6)"

type_synonym digest = "uint32 \<times> uint32 \<times> uint32 \<times> uint32 \<times> uint32"

fun rounds :: "uint32 list \<Rightarrow> nat \<Rightarrow> digest \<Rightarrow> digest" where
  "rounds [] t h = h"
| "rounds (w # ws) t (a, b, c, d, e) =
     rounds ws (t + 1)
       (RotateLeft32 a 5 + round_f t b c d + e + w + round_k t, a, RotateLeft32 b 30, c, d)"

fun block :: "digest \<Rightarrow> byte list \<Rightarrow> digest" where
  "block (h0, h1, h2, h3, h4) p =
     (case rounds (schedule (words p)) 0 (h0, h1, h2, h3, h4) of
        (a, b, c, d, e) \<Rightarrow> (h0 + a, h1 + b, h2 + c, h3 + d, h4 + e))"

function blocks :: "digest \<Rightarrow> byte list \<Rightarrow> digest" where
  "blocks h p = (if length p < 64 then h else blocks (block h (take 64 p)) (drop 64 p))"
  by pat_completeness auto
termination
  by (relation "measure (\<lambda>(h, p). length p)") auto

declare blocks.simps [simp del]

definition sha1_Sum :: "byte list \<Rightarrow> byte list" where
  "sha1_Sum msg =
     (case blocks (0x67452301, 0xEFCDAB89, 0x98BADCFE, 0x10325476, 0xC3D2E1F0) (padding msg) of
        (h0, h1, h2, h3, h4) \<Rightarrow>
          putUint32 h0 @ putUint32 h1 @ putUint32 h2 @ putUint32 h3 @ putUint32 h4)"

definition hextable :: string where
  "hextable = ''0123456789abcdef''"

definition hex_Encode :: "byte list \<Rightarrow> string" where
  "hex_Encode src =
     concat (map (\<lambda>v. [hextable ! unat (drop_bit 4 v), hextable ! unat (and v 0x0f)]) src)"

definition NameSpaceURL :: "byte list" where
  "NameSpaceURL =
     [0x6b, 0xa7, 0xb8, 0x11, 0x9d, 0xad, 0x11, 0xd1,
      0x80, 0xb4, 0x00, 0xc0, 0x4f, 0xd4, 0x30, 0xc8]"

definition NewHash :: "(byte list \<Rightarrow> byte list) \<Rightarrow> byte list \<Rightarrow> byte list \<Rightarrow> byte \<Rightarrow> byte list" where
  "NewHash h space data version =
     (let s = h (space @ data);
          uuid = take 16 s @ replicate (16 - length s) 0;
          uuid = uuid[6 := or (and (uuid ! 6) 0x0f) (push_bit 4 (and version 0xf))];
          uuid = uuid[8 := or (and (uuid ! 8) 0x3f) 0x80]
      in uuid)"

definition NewSHA1 :: "byte list \<Rightarrow> byte list \<Rightarrow> byte list" where
  "NewSHA1 space data = NewHash sha1_Sum space data 5"

definition UUID_String :: "byte list \<Rightarrow> string" where
  "UUID_String uuid =
     hex_Encode (take 4 uuid) @ ''-'' @ hex_Encode (take 2 (drop 4 uuid)) @ ''-'' @
     hex_Encode (take 2 (drop 6 uuid)) @ ''-'' @ hex_Encode (take 2 (drop 8 uuid)) @ ''-'' @
     hex_Encode (drop 10 uuid)"

definition ReplaceAll :: "string \<Rightarrow> char \<Rightarrow> string \<Rightarrow> string" where
  "ReplaceAll s old new = concat (map (\<lambda>c. if c = old then new else [c]) s)"

definition sliceString :: "string \<Rightarrow> nat \<Rightarrow> nat \<Rightarrow> string outcome" where
  "sliceString s lo hi =
     (if lo \<le> hi \<and> hi \<le> length s then Returns (take (hi - lo) (drop lo s))
      else Panics SliceBoundsOutOfRange)"

text \<open>The identifier that \<open>CreateURL\<close> derives from the URL of the request body.\<close>

definition CreateURL_shortID :: "string \<Rightarrow> string outcome" where
  "CreateURL_shortID url =
     (let data = map of_char url;
          guid = NewSHA1 NameSpaceURL data
      in sliceString (ReplaceAll (UUID_String guid) (CHR ''-'') '''') 0 10)"

subsection \<open>Handlers\<close>

text \<open>\<open>CreateURL\<close>: \<open>body\<close> is the result of \<open>BindJSON\<close>, the decoded \<open>url\<close> and
  \<open>expiration\<close> or the decoding error.\<close>

definition shortieAPI_CreateURL ::
  "('st \<Rightarrow> string \<Rightarrow> string \<Rightarrow> int64 \<Rightarrow> error option outcome \<times> 'st)
     \<Rightarrow> 'st \<Rightarrow> error + string \<times> int64 \<Rightarrow> response outcome \<times> 'st" where
  "shortieAPI_CreateURL SaveURL st body =
     (case body of
        Inl err \<Rightarrow> (Returns (JSONError StatusBadRequest (Error err)), st)
      | Inr (url, expiration) \<Rightarrow>
          (case CreateURL_shortID url of
             Panics p \<Rightarrow> (Panics p, st)
           | Returns shortID \<Rightarrow>
               (case SaveURL st shortID url expiration of
                  (Panics p, st') \<Rightarrow> (Panics p, st')
                | (Returns (Some err), st') \<Rightarrow>
                    (Returns (JSONError StatusInternalServerError (Error err)), st')
                | (Returns None, st') \<Rightarrow>
                    (Returns (JSONShortUrl StatusOK (''http://localhost:8421/shortie/'' @ shortID)),
                     st'))))"

definition shortieAPI_HandleRedirect ::
  "('st \<Rightarrow> string \<Rightarrow> (string \<times> error option) outcome \<times> 'st)
     \<Rightarrow> 'st \<Rightarrow> string \<Rightarrow> response outcome \<times> 'st" where
  "shortieAPI_HandleRedirect GetURL st shortID =
     (case GetURL st shortID of
        (Panics p, st') \<Rightarrow> (Panics p, st')
      | (Returns (url, Some err), st') \<Rightarrow>
          (Returns (JSONError StatusInternalServerError (Error err)), st')
      | (Returns (url, None), st') \<Rightarrow>
          if url = '''' then (Returns (Text StatusNotFound ''Not Found''), st')
          else (Returns (Redirect StatusTemporaryRedirect url), st'))"

definition shortieAPI_DeleteURL ::
  "('st \<Rightarrow> string \<Rightarrow> error option outcome \<times> 'st)
     \<Rightarrow> 'st \<Rightarrow> string \<Rightarrow> response outcome \<times> 'st" where
  "shortieAPI_DeleteURL DeleteURL st shortID =
     (case DeleteURL st shortID of
        (Panics p, st') \<Rightarrow> (Panics p, st')
      | (Returns (Some err), st') \<Rightarrow>
          (Returns (JSONError StatusInternalServerError (Error err)), st')
      | (Returns None, st') \<Rightarrow> (Returns (Status StatusOK), st'))"

text \<open>
  The loop of \<open>GetUsageStats\<close> over the six days before today: \<open>i\<close> counts the rounds,
  \<open>dayTimestamp\<close> steps back by 24 hours in each.
\<close>

function weekLoop :: "usage_map option \<Rightarrow> nat \<Rightarrow> int64 \<Rightarrow> Time \<Rightarrow> int64 \<times> Time" where
  "weekLoop usage i weekUsage dayTimestamp =
     (if i < 6
      then (let dayTimestamp' = Add dayTimestamp (- Hour * 24)
            in weekLoop usage (i + 1)
                 (weekUsage + mapIndex usage (Itoa (Unix dayTimestamp'))) dayTimestamp')
      else (weekUsage, dayTimestamp))"
  by pat_completeness auto
termination
  by (relation "measure (\<lambda>(usage, i, weekUsage, dayTimestamp). 6 - i)") auto

declare weekLoop.simps [simp del]

text \<open>\<open>GetUsageStats\<close> reads the clock twice: \<open>now1\<close> for \<open>todayTimestamp\<close>, from which the
  loop steps back, and \<open>now2\<close> for the key of today's bucket.\<close>

definition shortieAPI_GetUsageStats ::
  "('st \<Rightarrow> string \<Rightarrow> (usage_map option \<times> error option) outcome \<times> 'st)
     \<Rightarrow> Time \<Rightarrow> Time \<Rightarrow> 'st \<Rightarrow> string \<Rightarrow> response outcome \<times> 'st" where
  "shortieAPI_GetUsageStats GetStatistics now1 now2 st shortID =
     (case GetStatistics st shortID of
        (Panics p, st') \<Rightarrow> (Panics p, st')
      | (Returns (usage, Some err), st') \<Rightarrow>
          (Returns (JSONError StatusInternalServerError (Error err)), st')
      | (Returns (usage, None), st') \<Rightarrow>
          (let todayTimestamp = UTCTimestampOfTodayRounded now1;
               todayUsage = mapIndex usage (Itoa (Unix (UTCTimestampOfTodayRounded now2)));
               weekUsage = fst (weekLoop usage 0 todayUsage todayTimestamp);
               totalUsage = rangeSum usage
           in (Returns (JSONStats StatusOK todayUsage weekUsage totalUsage), st')))"

section \<open>The day-bucket key as the specification words it\<close>

text \<open>
  Truncate the current time to UTC midnight, take its unix-seconds value, stringify it.
  The Unix epoch is a UTC midnight and a day has 86400 seconds, so the day of an instant
  is its Unix time divided by 86400, rounded down, and its midnight is that many days
  after the epoch. \<open>dayKey d\<close> is the key of the bucket of day \<open>d\<close>.
\<close>

definition UTCDay :: "Time \<Rightarrow> int" where
  "UTCDay now = Unix now div 86400"

definition dayKey :: "int \<Rightarrow> string" where
  "dayKey d = Itoa (86400 * d)"

definition spec_dayBucketKey :: "Time \<Rightarrow> string" where
  "spec_dayBucketKey now = dayKey (UTCDay now)"

section \<open>Notions used to state and prove the properties\<close>

text \<open>
  \<open>buckets\<close> are the keys present in a usage mapping, \<open>weekKeys d\<close> the keys of day \<open>d\<close>
  and of the six days before it, and \<open>bucket\<close> the count a stored record holds under a
  key. \<open>parseNat\<close> reads a decimal string back, which shows that \<open>Itoa\<close> gives
  different numbers different strings.
\<close>

definition buckets :: "usage_map option \<Rightarrow> string set" where
  "buckets m = (case m of None \<Rightarrow> {} | Some al \<Rightarrow> set (map fst (DAList.impl_of al)))"

definition weekKeys :: "int \<Rightarrow> string set" where
  "weekKeys d = dayKey ` {d - 6 .. d}"

definition bucket :: "LocalStorage \<Rightarrow> string \<Rightarrow> string \<Rightarrow> int64 option" where
  "bucket storage shortID key =
     (case Objects storage of
        None \<Rightarrow> None
      | Some objs \<Rightarrow>
          (case objs shortID of
             None \<Rightarrow> None
           | Some object \<Rightarrow>
               (case Usage object of None \<Rightarrow> None | Some u \<Rightarrow> DAList.lookup u key)))"

definition digitVal :: "char \<Rightarrow> nat" where
  "digitVal c = of_char c - 48"

definition parseNat :: "string \<Rightarrow> nat" where
  "parseNat s = foldl (\<lambda>a c. 10 * a + digitVal c) 0 s"

text \<open>The largest \<open>int64\<close>, Go's \<open>math.MaxInt64\<close>: one more wraps around to the smallest.\<close>

definition MaxInt64 :: int64 where
  "MaxInt64 = 0x7FFFFFFFFFFFFFFF"

section \<open>Time arithmetic and keys\<close>

lemma Unix_today: "Unix (UTCTimestampOfTodayRounded now) = 86400 * UTCDay now"
proof -
  define q where "q = now div Second"
  have D: "Hour * 24 = 86400 * Second" by (simp add: Hour_def)
  have pos: "(0::int) < 86400 * Second" by (simp add: Second_def)
  have "now - now mod (86400 * Second) = (now div (86400 * Second)) * (86400 * Second)"
    by (simp add: minus_mod_eq_div_mult)
  also have "\<dots> = (now div (86400 * Second) * 86400) * Second" by simp
  finally have "(now - now mod (86400 * Second)) div Second = now div (86400 * Second) * 86400"
    by (simp add: Second_def)
  moreover have "now div (86400 * Second) = q div 86400"
    by (simp add: q_def Second_def zdiv_zmult2_eq mult.commute)
  moreover have "(q - 86400 * 719162) div 86400 = q div 86400 - 719162"
    by simp
  ultimately show ?thesis
    using pos by (simp add: UTCTimestampOfTodayRounded_def Truncate_def D Unix_def UTCDay_def
        unixToInternal_def q_def)
qed

lemma Unix_Add_day: "Unix (Add t (- (Hour * 24))) = Unix t - 86400"
proof -
  have "(t - 86400 * Second) div Second = t div Second - 86400"
    by (simp add: Second_def)
  then show ?thesis by (simp add: Unix_def Add_def Hour_def)
qed

lemma digits_decimal:
  "n < 10 \<Longrightarrow> digitVal (digits ! n) = n \<and> digits ! n \<noteq> CHR ''-''"
  by (simp add: digits_def digitVal_def nth_Cons')

lemma digitVal_digits: "n < 10 \<Longrightarrow> digitVal (digits ! n) = n"
  by (simp add: digits_decimal)

lemma digits_not_minus: "n < 10 \<Longrightarrow> digits ! n \<noteq> CHR ''-''"
  by (simp add: digits_decimal)

lemma parseNat_snoc: "parseNat (s @ [c]) = 10 * parseNat s + digitVal c"
  by (simp add: parseNat_def)

lemma parseNat_formatBits: "parseNat (formatBits n) = n"
proof (induction n rule: formatBits.induct)
  case (1 n)
  show ?case
  proof (cases "n < 10")
    case True
    then show ?thesis
      by (simp add: formatBits.simps [of n] parseNat_def digitVal_digits)
  next
    case False
    with 1 show ?thesis
      by (simp add: formatBits.simps [of n] parseNat_snoc digitVal_digits)
  qed
qed

lemma formatBits_nonempty: "formatBits n \<noteq> []"
  by (simp add: formatBits.simps [of n])

lemma hd_formatBits: "hd (formatBits n) \<noteq> CHR ''-''"
proof (induction n rule: formatBits.induct)
  case (1 n)
  show ?case
  proof (cases "n < 10")
    case True
    then show ?thesis
      by (simp add: formatBits.simps [of n] digits_not_minus)
  next
    case False
    with 1 show ?thesis
      by (simp add: formatBits.simps [of n] formatBits_nonempty)
  qed
qed

lemma Itoa_inject: "Itoa i = Itoa j \<longleftrightarrow> i = j"
proof
  assume eq: "Itoa i = Itoa j"
  have neg: "hd (Itoa k) = CHR ''-'' \<longleftrightarrow> k < 0" for k
    using hd_formatBits [of "nat k"] by (simp add: Itoa_def)
  from eq neg [of i] neg [of j] have sign: "i < 0 \<longleftrightarrow> j < 0" by simp
  show "i = j"
  proof (cases "i < 0")
    case True
    with sign eq have "formatBits (nat (- i)) = formatBits (nat (- j))"
      by (simp add: Itoa_def)
    then have "nat (- i) = nat (- j)"
      by (metis parseNat_formatBits)
    with True sign show ?thesis by simp
  next
    case False
    with sign eq have "formatBits (nat i) = formatBits (nat j)"
      by (simp add: Itoa_def)
    then have "nat i = nat j"
      by (metis parseNat_formatBits)
    with False sign show ?thesis by simp
  qed
qed simp

lemma dayKey_inject: "dayKey d = dayKey e \<longleftrightarrow> d = e"
  by (simp add: dayKey_def Itoa_inject)


lemma finite_buckets: "finite (buckets m)"
  by (simp add: buckets_def split: option.splits)

lemma mapIndex_outside: "k \<notin> buckets m \<Longrightarrow> mapIndex m k = 0"
  by (auto simp: buckets_def mapIndex_def DAList.lookup.rep_eq map_of_eq_None_iff [symmetric]
      split: option.splits)

lemma fold_add_snd:
  "fold (\<lambda>kv total. total + snd kv) xs (a::int64) = a + sum_list (map snd xs)"
  by (induction xs arbitrary: a) (simp_all add: add.assoc)

lemma sum_list_distinct_keys:
  "distinct (map fst xs) \<Longrightarrow>
   sum_list (map snd xs) = (\<Sum>k\<in>set (map fst xs). case map_of xs k of None \<Rightarrow> (0::int64) | Some v \<Rightarrow> v)"
proof (induction xs)
  case Nil
  then show ?case by simp
next
  case (Cons x xs)
  obtain k v where x: "x = (k, v)" by (cases x)
  from Cons.prems x have notin: "k \<notin> set (map fst xs)" and d: "distinct (map fst xs)"
    by simp_all
  have "(\<Sum>j\<in>set (map fst xs). case map_of (x # xs) j of None \<Rightarrow> 0 | Some w \<Rightarrow> w)
      = (\<Sum>j\<in>set (map fst xs). case map_of xs j of None \<Rightarrow> (0::int64) | Some w \<Rightarrow> w)"
    using notin by (intro sum.cong) (auto simp: x)
  with Cons.IH [OF d] notin show ?case
    by (simp add: x)
qed

lemma rangeSum_buckets: "rangeSum m = (\<Sum>k\<in>buckets m. mapIndex m k)"
proof (cases m)
  case None
  then show ?thesis by (simp add: rangeSum_def buckets_def)
next
  case (Some al)
  have "rangeSum m = sum_list (map snd (DAList.impl_of al))"
    by (simp add: Some rangeSum_def fold_add_snd)
  also have "\<dots> = (\<Sum>k\<in>set (map fst (DAList.impl_of al)).
      case map_of (DAList.impl_of al) k of None \<Rightarrow> 0 | Some v \<Rightarrow> v)"
    by (rule sum_list_distinct_keys) simp
  finally show ?thesis
    by (simp add: Some buckets_def mapIndex_def DAList.lookup.rep_eq)
qed

lemma weekLoop_unfold:
  "fst (weekLoop usage 0 w t) =
     w + mapIndex usage (Itoa (Unix t - 86400 * 1)) + mapIndex usage (Itoa (Unix t - 86400 * 2))
       + mapIndex usage (Itoa (Unix t - 86400 * 3)) + mapIndex usage (Itoa (Unix t - 86400 * 4))
       + mapIndex usage (Itoa (Unix t - 86400 * 5)) + mapIndex usage (Itoa (Unix t - 86400 * 6))"
  by (simp add: weekLoop.simps Let_def Unix_Add_day)

section \<open>Validity of the in-memory states\<close>

lemma valid_new: "valid newLocalStorage"
  by (simp add: valid_def newLocalStorage_def)

lemma valid_Objects: "valid s \<Longrightarrow> \<exists>objs. Objects s = Some objs"
  by (cases "Objects s") (simp_all add: valid_def)

lemma valid_Usage:
  "valid s \<Longrightarrow> Objects s = Some objs \<Longrightarrow> objs k = Some object \<Longrightarrow> \<exists>u. Usage object = Some u"
  by (cases "Usage object") (auto simp: valid_def ran_def)

lemma valid_upd:
  assumes "valid s" and "Objects s = Some objs" and "Usage object \<noteq> None"
  shows "valid (s\<lparr>Objects := Some (objs(k \<mapsto> object))\<rparr>)"
proof -
  have "ran (objs(k \<mapsto> object)) \<subseteq> insert object (ran objs)"
    by (auto simp: ran_def split: if_splits)
  with assms show ?thesis
    by (auto simp: valid_def)
qed

lemma valid_del:
  assumes "valid s" and "Objects s = Some objs"
  shows "valid (s\<lparr>Objects := Some (objs(k := None))\<rparr>)"
proof -
  have "ran (objs(k := None)) \<subseteq> ran objs"
    by (auto simp: ran_def split: if_splits)
  with assms show ?thesis
    by (auto simp: valid_def)
qed

lemma valid_SaveURL: "valid s \<Longrightarrow> valid (snd (LocalStorage_SaveURL s shortID url expiration))"
  by (auto simp: LocalStorage_SaveURL_def split: option.splits intro: valid_upd)

lemma valid_GetURL: "valid s \<Longrightarrow> valid (snd (LocalStorage_GetURL now s shortID))"
  by (auto simp: LocalStorage_GetURL_def mapAssign_def Let_def
      split: option.splits intro: valid_upd)

lemma valid_DeleteURL: "valid s \<Longrightarrow> valid (snd (LocalStorage_DeleteURL s shortID))"
  by (auto simp: LocalStorage_DeleteURL_def split: option.splits intro: valid_del)

lemma valid_GetStatistics: "valid s \<Longrightarrow> valid (snd (LocalStorage_GetStatistics s shortID))"
  by (auto simp: LocalStorage_GetStatistics_def split: option.splits)

lemma reachable_valid: "reachable s \<Longrightarrow> valid s"
  by (induction rule: reachable.induct)
    (simp_all add: valid_new valid_SaveURL valid_GetURL valid_DeleteURL valid_GetStatistics)

lemma GetURL_hit:
  assumes "Objects s = Some objs" and "objs shortID = Some object" and "Usage object = Some u"
  shows "LocalStorage_GetURL now s shortID =
    (Returns (URL object, None),
     s\<lparr>Objects := Some (objs(shortID \<mapsto> object\<lparr>Usage :=
        Some (DAList.update (spec_dayBucketKey now)
               (mapIndex (Some u) (spec_dayBucketKey now) + 1) u)\<rparr>))\<rparr>)"
  using assms
  by (simp add: LocalStorage_GetURL_def mapAssign_def Let_def Unix_today spec_dayBucketKey_def
      dayKey_def)

lemma GetURL_miss:
  "Objects s = Some objs \<Longrightarrow> objs shortID = None \<Longrightarrow>
   LocalStorage_GetURL now s shortID = (Returns ('''', None), s)"
  by (simp add: LocalStorage_GetURL_def)

lemma SaveURL_fresh:
  "Objects s = Some objs \<Longrightarrow> objs shortID = None \<Longrightarrow>
   LocalStorage_SaveURL s shortID url expiration =
     (Returns None, s\<lparr>Objects := Some (objs(shortID \<mapsto>
        \<lparr>ShortID = shortID, URL = url, Version = 0, Expiration = expiration,
         Usage = Some DAList.empty\<rparr>))\<rparr>)"
  by (simp add: LocalStorage_SaveURL_def)

lemma SaveURL_existing:
  "Objects s = Some objs \<Longrightarrow> objs shortID = Some object \<Longrightarrow>
   LocalStorage_SaveURL s shortID url expiration = (Returns None, s)"
  by (simp add: LocalStorage_SaveURL_def)

section \<open>The remote backend on present and absent items\<close>

lemma Dynamo_getObject_absent:
  "items st shortID = None \<Longrightarrow> DynamoStorage_getObject None st shortID = (None, None)"
  by (simp add: DynamoStorage_getObject_def GetItemWithContext_def)

lemma Dynamo_getObject_present:
  "items st shortID = Some item \<Longrightarrow>
   DynamoStorage_getObject None st shortID =
     (Some (if Usage item = None then item\<lparr>Usage := Some DAList.empty\<rparr> else item), None)"
  by (simp add: DynamoStorage_getObject_def GetItemWithContext_def UnmarshalMap_def)

lemma Dynamo_SaveURL_existing:
  assumes "items st shortID = Some item"
  shows "DynamoStorage_SaveURL None st shortID url expiration = (Returns None, st)"
    and "snd (DynamoStorage_SaveURL fault st shortID url expiration) = st"
  using assms
  by (cases fault;
      simp add: DynamoStorage_SaveURL_def MarshalMap_def PutItemWithContext_def Let_def)+

lemma Dynamo_SaveURL_fresh:
  assumes "items st shortID = None"
  shows "DynamoStorage_SaveURL None st shortID url expiration =
     (Returns None, st\<lparr>items := (items st)(shortID \<mapsto>
        \<lparr>ShortID = shortID, URL = url, Version = 0, Expiration = expiration,
         Usage = None\<rparr>)\<rparr>)"
  using assms
  by (simp add: DynamoStorage_SaveURL_def MarshalMap_def PutItemWithContext_def Let_def
      DAList.empty.rep_eq)

lemma update_not_empty: "DAList.impl_of (DAList.update k v al) \<noteq> []"
  by (cases "DAList.impl_of al") (simp_all add: DAList.update.rep_eq)

lemma MarshalMap_updated:
  "MarshalMap (object\<lparr>Usage := Some (DAList.update k v al)\<rparr>) =
     Inr (object\<lparr>Usage := Some (DAList.update k v al)\<rparr>)"
  by (simp add: MarshalMap_def update_not_empty)

lemma Dynamo_GetStatistics_present:
  "items st shortID = Some item \<Longrightarrow>
   DynamoStorage_GetStatistics None st shortID =
     (Returns (if Usage item = None then Some DAList.empty else Usage item, None), st)"
  by (simp add: DynamoStorage_GetStatistics_def Dynamo_getObject_present)

lemma Dynamo_GetStatistics_absent:
  "items st shortID = None \<Longrightarrow>
   DynamoStorage_GetStatistics None st shortID = (Panics NilPointerDereference, st)"
  by (simp add: DynamoStorage_GetStatistics_def Dynamo_getObject_absent)

lemma miss_semantics_elsewhere:
  assumes "Objects s = Some objs" and "objs shortID = None" and "items st shortID = None"
  shows "LocalStorage_GetURL now s shortID = (Returns ('''', None), s)
       \<and> LocalStorage_GetStatistics s shortID = (Returns (Some DAList.empty, None), s)
       \<and> fst (LocalStorage_DeleteURL s shortID) = Returns None
       \<and> DynamoStorage_GetURL None st shortID = (Returns ('''', None), st)
       \<and> fst (DynamoStorage_DeleteURL None st shortID) = Returns None"
  using assms
  by (simp add: GetURL_miss LocalStorage_GetStatistics_def LocalStorage_DeleteURL_def
      DynamoStorage_GetURL_def Dynamo_getObject_absent DynamoStorage_DeleteURL_def
      DeleteItemWithContext_def)

section \<open>The statistics handler and the buckets of a record\<close>

lemma todayKey_spec:
  "Itoa (Unix (UTCTimestampOfTodayRounded now)) = spec_dayBucketKey now"
  by (simp add: Unix_today spec_dayBucketKey_def dayKey_def)

lemma earlier_dayKey: "Itoa (86400 * d - 86400 * k) = dayKey (d - k)"
  by (simp add: dayKey_def right_diff_distrib)

lemma week_interval: "{d - 6..d} = {d - 6, d - 5, d - 4, d - 3, d - 2, d - 1, d :: int}"
  by auto

lemma sum_week:
  "(\<Sum>k\<in>{d - 6..d}. f (dayKey k)) =
     f (dayKey d) + f (dayKey (d - 1)) + f (dayKey (d - 2)) + f (dayKey (d - 3))
       + f (dayKey (d - 4)) + f (dayKey (d - 5)) + (f (dayKey (d - 6)) :: int64)"
  by (simp add: week_interval add.assoc add.left_commute)

lemma GetUsageStats_eq:
  assumes "GetStatistics st shortID = (Returns (usage, None), st')"
  shows "shortieAPI_GetUsageStats GetStatistics now1 now2 st shortID =
     (Returns (JSONStats StatusOK
        (mapIndex usage (dayKey (UTCDay now2)))
        (mapIndex usage (dayKey (UTCDay now2))
           + mapIndex usage (dayKey (UTCDay now1 - 1)) + mapIndex usage (dayKey (UTCDay now1 - 2))
           + mapIndex usage (dayKey (UTCDay now1 - 3)) + mapIndex usage (dayKey (UTCDay now1 - 4))
           + mapIndex usage (dayKey (UTCDay now1 - 5)) + mapIndex usage (dayKey (UTCDay now1 - 6)))
        (\<Sum>key\<in>buckets usage. mapIndex usage key)), st')"
  using assms earlier_dayKey [of "UTCDay now1" 1] earlier_dayKey [of "UTCDay now1" 2]
    earlier_dayKey [of "UTCDay now1" 3] earlier_dayKey [of "UTCDay now1" 4]
    earlier_dayKey [of "UTCDay now1" 5] earlier_dayKey [of "UTCDay now1" 6]
  by (simp add: shortieAPI_GetUsageStats_def Let_def weekLoop_unfold Unix_today
      rangeSum_buckets dayKey_def [of "UTCDay now2"])

lemma week_only:
  "(\<Sum>k\<in>{d - 6..d}. mapIndex usage (dayKey k)) =
     (\<Sum>key\<in>buckets usage \<inter> weekKeys d. mapIndex usage key)"
proof -
  have "(\<Sum>k\<in>{d - 6..d}. mapIndex usage (dayKey k)) = (\<Sum>key\<in>weekKeys d. mapIndex usage key)"
    unfolding weekKeys_def
    by (subst sum.reindex) (simp_all add: inj_on_def dayKey_inject)
  also have "\<dots> = (\<Sum>key\<in>buckets usage \<inter> weekKeys d. mapIndex usage key)"
    by (rule sum.mono_neutral_right) (auto simp: weekKeys_def intro: mapIndex_outside)
  finally show ?thesis .
qed

lemma GetURL_single:
  assumes "UTCDay now = d"
  shows "LocalStorage_GetURL now
           \<lparr>Objects = Some [shortID \<mapsto> \<lparr>ShortID = shortID, URL = url, Version = 0,
              Expiration = e, Usage = Some (DAList.update (dayKey d) n u)\<rparr>]\<rparr> shortID
         = (Returns (url, None),
            \<lparr>Objects = Some [shortID \<mapsto> \<lparr>ShortID = shortID, URL = url, Version = 0,
              Expiration = e, Usage = Some (DAList.update (dayKey d) (n + 1) u)\<rparr>]\<rparr>)"
  using assms
  by (simp add: GetURL_hit [where u = "DAList.update (dayKey d) n u"] spec_dayBucketKey_def
      mapIndex_def)

lemma GetURL_first:
  assumes "UTCDay now = d"
  shows "LocalStorage_GetURL now
           \<lparr>Objects = Some [shortID \<mapsto> \<lparr>ShortID = shortID, URL = url, Version = 0,
              Expiration = e, Usage = Some DAList.empty\<rparr>]\<rparr> shortID
         = (Returns (url, None),
            \<lparr>Objects = Some [shortID \<mapsto> \<lparr>ShortID = shortID, URL = url, Version = 0,
              Expiration = e, Usage = Some (DAList.update (dayKey d) 1 DAList.empty)\<rparr>]\<rparr>)"
  using assms
  by (simp add: GetURL_hit [where u = "DAList.empty"] spec_dayBucketKey_def mapIndex_def)

lemma example_day: "UTCDay 63866234096500000000 = 20030"
  by (simp add: UTCDay_def Unix_def Second_def unixToInternal_def)

lemma example_keys:
  "dayKey 20030 = ''1730592000''" "dayKey 20024 = ''1730073600''" "dayKey 20022 = ''1729900800''"
  by (simp_all add: dayKey_def Itoa_def formatBits.simps digits_def)

lemma sint_MaxInt64: "sint MaxInt64 = 2 ^ 63 - 1"
  by (simp add: MaxInt64_def)

lemma sint_increment:
  assumes "v \<noteq> MaxInt64"
  shows "sint (v + 1 :: int64) = sint v + 1"
proof -
  have "sint v \<noteq> sint MaxInt64"
    using assms by (auto dest: signed_word_eqI)
  moreover have "sint v < 2 ^ 63" and low: "- (2 ^ 63) \<le> sint v"
    using sint_lt [of v] sint_ge [of v] by simp_all
  ultimately have high: "sint v + 1 < 2 ^ 63"
    by (simp add: sint_MaxInt64)
  have "sint (v + 1) = signed_take_bit 63 (sint v + 1)"
    by (simp add: sint_word_ariths)
  also have "\<dots> = sint v + 1"
    using low high by (intro signed_take_bit_int_eq_self) simp_all
  finally show ?thesis .
qed

lemma bucket_Some:
  "bucket s shortID key = Some v \<longleftrightarrow>
     (\<exists>objs object u. Objects s = Some objs \<and> objs shortID = Some object
        \<and> Usage object = Some u \<and> DAList.lookup u key = Some v)"
  by (auto simp: bucket_def split: option.splits)

lemma bucket_SaveURL:
  assumes "bucket s shortID key = Some v"
  shows "bucket (snd (LocalStorage_SaveURL s shortID' url expiration)) shortID key = Some v"
  using assms
  by (auto simp: bucket_def LocalStorage_SaveURL_def split: option.splits)

lemma bucket_GetStatistics:
  "bucket (snd (LocalStorage_GetStatistics s shortID')) shortID key = bucket s shortID key"
  by (auto simp: LocalStorage_GetStatistics_def split: option.splits)

lemma bucket_GetURL:
  assumes "bucket s shortID key = Some v"
  shows "bucket (snd (LocalStorage_GetURL now s shortID')) shortID key =
           Some (if shortID' = shortID \<and> key = spec_dayBucketKey now then v + 1 else v)"
proof -
  from assms obtain objs object u where s: "Objects s = Some objs"
    and o: "objs shortID = Some object" and u: "Usage object = Some u"
    and v: "DAList.lookup u key = Some v"
    by (auto simp: bucket_Some)
  show ?thesis
  proof (cases "shortID' = shortID")
    case True
    with s o u v show ?thesis
      by (simp add: GetURL_hit [where u = u] bucket_def mapIndex_def DAList.lookup_update)
  next
    case False
    have other: "Objects (snd (LocalStorage_GetURL now s shortID')) = Some objs'
        \<Longrightarrow> objs' shortID = objs shortID" for objs'
      using s False
      by (auto simp: LocalStorage_GetURL_def mapAssign_def Let_def split: option.splits)
    have "\<exists>objs'. Objects (snd (LocalStorage_GetURL now s shortID')) = Some objs'"
      using s
      by (auto simp: LocalStorage_GetURL_def mapAssign_def Let_def split: option.splits)
    with other o u v False show ?thesis
      by (auto simp: bucket_def)
  qed
qed

text \<open>
  The trailing week when both clock readings of \<open>GetUsageStats\<close> fall on the same UTC
  day \<open>d\<close>: for every usage mapping \<open>lastDay\<close> is the bucket of day \<open>d\<close>, \<open>lastWeek\<close> is the
  sum of the buckets of the days \<open>d - 6\<close> to \<open>d\<close>, which is the sum of exactly those buckets
  of the mapping whose key is one of these seven, and \<open>allTime\<close> is the sum of every
  bucket of the mapping. The key of the day six days back is among the seven and the key
  of the day eight days back is not: for the mapping with 2 on the first and 5 on the
  second the answer is \<open>lastDay = 0\<close>, \<open>lastWeek = 2\<close>, \<open>allTime = 7\<close>.
\<close>

lemma week_window_same_day:
  assumes "UTCDay now1 = d" and "UTCDay now2 = d"
  shows "shortieAPI_GetUsageStats (\<lambda>st shortID. (Returns (usage, None), st)) now1 now2 st shortID
           = (Returns (JSONStats StatusOK
                (mapIndex usage (dayKey d))
                (\<Sum>k\<in>{d - 6..d}. mapIndex usage (dayKey k))
                (\<Sum>key\<in>buckets usage. mapIndex usage key)), st)
       \<and> (\<Sum>k\<in>{d - 6..d}. mapIndex usage (dayKey k))
           = (\<Sum>key\<in>buckets usage \<inter> weekKeys d. mapIndex usage key)
       \<and> dayKey (d - 6) \<in> weekKeys d \<and> dayKey (d - 8) \<notin> weekKeys d
       \<and> shortieAPI_GetUsageStats
            (\<lambda>st shortID. (Returns (Some (DAList.update (dayKey (d - 8)) 5
               (DAList.update (dayKey (d - 6)) 2 DAList.empty)), None), st)) now1 now2 st shortID
           = (Returns (JSONStats StatusOK 0 2 7), st)"
proof -
  let ?u = "Some (DAList.update (dayKey (d - 8)) 5 (DAList.update (dayKey (d - 6)) 2 DAList.empty))"
  have general: "shortieAPI_GetUsageStats (\<lambda>st shortID. (Returns (u, None), st)) now1 now2 st shortID
           = (Returns (JSONStats StatusOK
                (mapIndex u (dayKey d))
                (\<Sum>k\<in>{d - 6..d}. mapIndex u (dayKey k))
                (\<Sum>key\<in>buckets u. mapIndex u key)), st)" for u
    using assms by (simp add: GetUsageStats_eq sum_week)
  have keys: "dayKey (d - 6) \<in> weekKeys d \<and> dayKey (d - 8) \<notin> weekKeys d"
    by (auto simp: weekKeys_def dayKey_inject)
  have b: "buckets ?u = {dayKey (d - 8), dayKey (d - 6)}"
    by (auto simp: buckets_def DAList.update.rep_eq DAList.empty.rep_eq dayKey_inject)
  have day: "mapIndex ?u (dayKey d) = 0"
    by (simp add: mapIndex_def DAList.lookup_update dayKey_inject)
  have week: "(\<Sum>k\<in>{d - 6..d}. mapIndex ?u (dayKey k)) = 2"
    by (simp only: sum_week) (simp add: mapIndex_def DAList.lookup_update dayKey_inject)
  have total: "(\<Sum>key\<in>buckets ?u. mapIndex ?u key) = 7"
    by (simp add: b mapIndex_def DAList.lookup_update dayKey_inject)
  show ?thesis
    using general [of usage] general [of ?u] keys week_only [of usage d] day week total
    by simp
qed

lemma week_window_same_day_example:
  "UTCDay 63866234096500000000 = 20030
   \<and> shortieAPI_GetUsageStats
        (\<lambda>st shortID. (Returns (Some (DAList.update ''1729900800'' 5
           (DAList.update ''1730073600'' 2 DAList.empty)), None), st))
        63866234096500000000 63866234096500000000 () ''abc''
       = (Returns (JSONStats StatusOK 0 2 7), ())"
  using week_window_same_day [OF example_day example_day, where usage = None and st = "()"
      and shortID = "''abc''"]
  by (simp add: example_day example_keys)

lemma late_day: "UTCDay 63866275199999999999 = 20030"
  by (simp add: UTCDay_def Unix_def Second_def unixToInternal_def)

lemma next_day: "UTCDay 63866275200000000000 = 20031"
  by (simp add: UTCDay_def Unix_def Second_def unixToInternal_def)

section \<open>Identifier generation\<close>

lemma length_NewHash: "length (NewHash h space data version) = 16"
  by (simp add: NewHash_def Let_def)

lemma hex_Encode_append: "hex_Encode (a @ b) = hex_Encode a @ hex_Encode b"
  by (simp add: hex_Encode_def)

lemma length_hex_Encode: "length (hex_Encode src) = 2 * length src"
  by (induction src) (simp_all add: hex_Encode_def)

lemma nibble_high: "unat (drop_bit 4 (v :: byte)) < 16"
proof -
  have "unat (drop_bit 4 v) = unat v div 16"
    by (simp add: drop_bit_eq_div unat_div)
  moreover have "unat v < 256"
    using unsigned_less [of v] by simp
  ultimately show ?thesis by simp
qed

lemma nibble_low: "unat (and (v :: byte) 0x0f) < 16"
proof -
  have "and v 0x0f \<le> 0x0f"
    by (rule word_and_le1)
  then have "unat (and v 0x0f) \<le> unat (0x0f :: byte)"
    by (simp add: word_le_nat_alt)
  then show ?thesis by simp
qed

lemma hextable_nth: "n < 16 \<Longrightarrow> hextable ! n \<in> set ''0123456789abcdef''"
  unfolding hextable_def by (rule nth_mem) simp

lemma set_hex_Encode: "set (hex_Encode src) \<subseteq> set ''0123456789abcdef''"
  using hextable_nth [OF nibble_high] hextable_nth [OF nibble_low]
  by (auto simp: hex_Encode_def)

lemma ReplaceAll_append: "ReplaceAll (a @ b) old new = ReplaceAll a old new @ ReplaceAll b old new"
  by (simp add: ReplaceAll_def)

lemma ReplaceAll_absent: "old \<notin> set s \<Longrightarrow> ReplaceAll s old new = s"
  by (induction s) (auto simp: ReplaceAll_def)

lemma ReplaceAll_hex: "ReplaceAll (hex_Encode src) (CHR ''-'') new = hex_Encode src"
  using set_hex_Encode [of src] by (intro ReplaceAll_absent) auto

lemma ReplaceAll_UUID_String:
  "length uuid = 16 \<Longrightarrow> ReplaceAll (UUID_String uuid) (CHR ''-'') '''' = hex_Encode uuid"
proof -
  assume len: "length uuid = 16"
  have hyphen: "ReplaceAll ''-'' (CHR ''-'') '''' = ''''"
    by (simp add: ReplaceAll_def)
  have "ReplaceAll (UUID_String uuid) (CHR ''-'') '''' =
      hex_Encode (take 4 uuid @ take 2 (drop 4 uuid) @ take 2 (drop 6 uuid)
        @ take 2 (drop 8 uuid) @ drop 10 uuid)"
    by (simp add: UUID_String_def ReplaceAll_append ReplaceAll_hex hyphen hex_Encode_append
        del: append_Cons append_Nil)
  also have "take 4 uuid @ take 2 (drop 4 uuid) @ take 2 (drop 6 uuid)
        @ take 2 (drop 8 uuid) @ drop 10 uuid = uuid"
    using len by (simp add: list_eq_iff_nth_eq nth_append min_def)
  finally show ?thesis .
qed

lemma CreateURL_shortID_eq:
  "CreateURL_shortID url =
     Returns (take 10 (hex_Encode (NewSHA1 NameSpaceURL (map of_char url))))"
  by (simp add: CreateURL_shortID_def Let_def NewSHA1_def ReplaceAll_UUID_String length_NewHash
      sliceString_def length_hex_Encode)

lemma CreateURL_local:
  assumes "Objects s = Some objs" and "CreateURL_shortID url = Returns shortID"
  shows "shortieAPI_CreateURL LocalStorage_SaveURL s (Inr (url, expiration)) =
     (Returns (JSONShortUrl StatusOK (''http://localhost:8421/shortie/'' @ shortID)),
      snd (LocalStorage_SaveURL s shortID url expiration))"
  using assms
  by (cases "objs shortID") (simp_all add: shortieAPI_CreateURL_def SaveURL_fresh SaveURL_existing)

lemma replicate_numeral: "replicate (numeral k) x = x # replicate (pred_numeral k) x"
  by (simp add: numeral_eq_Suc)

lemma example_padding:
  "padding (NameSpaceURL @ map of_char ''https://example.com/data/hi'') =
     [107, 167, 184, 17, 157, 173, 17, 209, 128, 180, 0, 192, 79, 212, 48, 200,
      104, 116, 116, 112, 115, 58, 47, 47, 101, 120, 97, 109, 112, 108, 101, 46,
      99, 111, 109, 47, 100, 97, 116, 97, 47, 104, 105, 128, 0, 0, 0, 0, 0, 0,
      0, 0, 0, 0, 0, 0, 0, 0, 0, 0, 0, 0, 1, 88]"
  by (simp add: padding_def NameSpaceURL_def Let_def upt_rec replicate_numeral)

lemma example_words:
  "words [107, 167, 184, 17, 157, 173, 17, 209, 128, 180, 0, 192, 79, 212, 48, 200,
      104, 116, 116, 112, 115, 58, 47, 47, 101, 120, 97, 109, 112, 108, 101, 46,
      99, 111, 109, 47, 100, 97, 116, 97, 47, 104, 105, 128, 0, 0, 0, 0, 0, 0,
      0, 0, 0, 0, 0, 0, 0, 0, 0, 0, 0, 0, 1, 88] =
     [1806153745, 2645365201, 2159280320, 1339306184, 1752462448, 1933193007,
      1702388077, 1886151982, 1668246831, 1684108385, 795371904, 0, 0, 0, 0, 344]"
  by (simp add: beUint32_def)

lemma example_schedule:
  "schedule [1806153745, 2645365201, 2159280320, 1339306184, 1752462448, 1933193007,
      1702388077, 1886151982, 1668246831, 1684108385, 795371904, 0, 0, 0, 0, 344] =
     [1806153745, 2645365201, 2159280320, 1339306184, 1752462448, 1933193007, 1702388077,
      1886151982, 1668246831, 1684108385, 795371904, 0, 0, 0, 0, 344, 284797949,
      1815128817, 2404399313, 1479501876, 3262742488, 403498401, 3161508076, 2900942751,
      2313459174, 1749167353, 429989276, 2744646565, 1417061955, 56357578, 507326824,
      694002923, 707651584, 2227289768, 4222352636, 2469608545, 1568497599, 2552784912,
      1899274247, 1628704869, 1149243604, 2084672486, 2932911757, 4009642932, 3605968612,
      972890488, 1471440311, 885881220, 1509313185, 2014243120, 2039933076, 2015800009,
      89342169, 1924096819, 877461338, 1503098300, 2182295447, 3187383409, 2961115778,
      1517149988, 1944330230, 2680185499, 3234209488, 3445749244, 2070404722, 4197155504,
      62303846, 1460113752, 1906328971, 1855829221, 1128054410, 2975511412, 1328324356,
      3171090142, 3807252684, 3138217927, 4278285542, 3181667997, 2267034590, 4062405052]"
  by (simp add: schedule.simps Let_def RotateLeft32_def)

lemma example_rounds:
  "rounds
     [1806153745, 2645365201, 2159280320, 1339306184, 1752462448, 1933193007, 1702388077,
      1886151982, 1668246831, 1684108385, 795371904, 0, 0, 0, 0, 344, 284797949,
      1815128817, 2404399313, 1479501876, 3262742488, 403498401, 3161508076, 2900942751,
      2313459174, 1749167353, 429989276, 2744646565, 1417061955, 56357578, 507326824,
      694002923, 707651584, 2227289768, 4222352636, 2469608545, 1568497599, 2552784912,
      1899274247, 1628704869, 1149243604, 2084672486, 2932911757, 4009642932, 3605968612,
      972890488, 1471440311, 885881220, 1509313185, 2014243120, 2039933076, 2015800009,
      89342169, 1924096819, 877461338, 1503098300, 2182295447, 3187383409, 2961115778,
      1517149988, 1944330230, 2680185499, 3234209488, 3445749244, 2070404722, 4197155504,
      62303846, 1460113752, 1906328971, 1855829221, 1128054410, 2975511412, 1328324356,
      3171090142, 3807252684, 3138217927, 4278285542, 3181667997, 2267034590, 4062405052]
     0 (0x67452301, 0xEFCDAB89, 0x98BADCFE, 0x10325476, 0xC3D2E1F0) =
     (3873415528, 1920004907, 651833357, 3189779492, 3935161355)"
  by (simp add: round_f_def round_k_def RotateLeft32_def)

lemma example_blocks:
  "blocks (0x67452301, 0xEFCDAB89, 0x98BADCFE, 0x10325476, 0xC3D2E1F0)
     [107, 167, 184, 17, 157, 173, 17, 209, 128, 180, 0, 192, 79, 212, 48, 200,
      104, 116, 116, 112, 115, 58, 47, 47, 101, 120, 97, 109, 112, 108, 101, 46,
      99, 111, 109, 47, 100, 97, 116, 97, 47, 104, 105, 128, 0, 0, 0, 0, 0, 0,
      0, 0, 0, 0, 0, 0, 0, 0, 0, 0, 0, 0, 1, 88] =
     (1311032425, 1648271028, 3214216459, 3461513370, 2925571579)"
proof -
  let ?p = "[107, 167, 184, 17, 157, 173, 17, 209, 128, 180, 0, 192, 79, 212, 48, 200,
      104, 116, 116, 112, 115, 58, 47, 47, 101, 120, 97, 109, 112, 108, 101, 46,
      99, 111, 109, 47, 100, 97, 116, 97, 47, 104, 105, 128, 0, 0, 0, 0, 0, 0,
      0, 0, 0, 0, 0, 0, 0, 0, 0, 0, 0, 0, 1, 88] :: byte list"
  let ?h = "(0x67452301, 0xEFCDAB89, 0x98BADCFE, 0x10325476, 0xC3D2E1F0) :: digest"
  let ?h' = "(1311032425, 1648271028, 3214216459, 3461513370, 2925571579) :: digest"
  have len: "\<not> length ?p < 64"
    by simp
  have one: "take 64 ?p = ?p" and rest: "drop 64 ?p = []"
    by simp_all
  have "block ?h ?p = ?h'"
    by (simp only: block.simps example_words example_schedule example_rounds) simp
  moreover have "blocks ?h' [] = ?h'"
    by (subst blocks.simps) simp
  moreover have "blocks ?h ?p = blocks (block ?h (take 64 ?p)) (drop 64 ?p)"
    by (subst blocks.simps) (simp only: len if_False)
  ultimately show ?thesis
    by (simp only: one rest)
qed

lemma example_digest:
  "sha1_Sum (NameSpaceURL @ map of_char ''https://example.com/data/hi'') =
     [78, 36, 196, 105, 98, 62, 158, 180, 191, 149, 13, 11, 206, 82, 128, 154, 174, 96, 173, 251]"
  by (simp only: sha1_Sum_def example_padding example_blocks) (simp add: putUint32_def)

lemma test_vector:
  "CreateURL_shortID ''https://example.com/data/hi'' = Returns ''4e24c46962''"
  by (simp only: CreateURL_shortID_eq NewSHA1_def NewHash_def example_digest)
    (simp add: Let_def hex_Encode_def hextable_def)

section \<open>The tests of the repository\<close>

text \<open>
  The cases of \<open>TestShortieAPI\<close> that do not depend on the day of the clock readings,
  run on the model: the redirect and the miss, the delete of a present and of an absent
  identifier, the statistics of an absent identifier, and the creation of a new and of an
  existing URL, with the identifier the test expects. (The last case of the test, three
  reads and their statistics, is claim C4.)
\<close>

lemma test_redirect:
  "fst (shortieAPI_HandleRedirect (LocalStorage_GetURL now)
     (snd (LocalStorage_SaveURL newLocalStorage ''111'' ''http://redirection.com/portal/portal'' 0))
     ''111'')
   = Returns (Redirect StatusTemporaryRedirect ''http://redirection.com/portal/portal'')"
  by (simp add: shortieAPI_HandleRedirect_def LocalStorage_SaveURL_def newLocalStorage_def
      GetURL_hit [where u = DAList.empty])

lemma test_not_found:
  "fst (shortieAPI_HandleRedirect (LocalStorage_GetURL now)
     (snd (LocalStorage_SaveURL newLocalStorage ''111'' ''http://redirection.com/portal/portal'' 0))
     ''222'')
   = Returns (Text StatusNotFound ''Not Found'')"
  by (simp add: shortieAPI_HandleRedirect_def LocalStorage_SaveURL_def newLocalStorage_def
      LocalStorage_GetURL_def)

lemma test_delete:
  "fst (shortieAPI_DeleteURL LocalStorage_DeleteURL
     (snd (LocalStorage_SaveURL newLocalStorage ''111'' ''http://redirection.com/portal/portal'' 0))
     shortID)
   = Returns (Status StatusOK)"
  by (simp add: shortieAPI_DeleteURL_def LocalStorage_SaveURL_def newLocalStorage_def
      LocalStorage_DeleteURL_def)

lemma test_usage_empty:
  "fst (shortieAPI_GetUsageStats LocalStorage_GetStatistics now1 now2
     (snd (LocalStorage_GetURL now
       (snd (LocalStorage_SaveURL newLocalStorage ''111'' ''http://redirection.com/portal/portal'' 0))
       ''111''))
     ''222'')
   = Returns (JSONStats StatusOK 0 0 0)"
proof -
  let ?s = "snd (LocalStorage_GetURL now
       (snd (LocalStorage_SaveURL newLocalStorage ''111'' ''http://redirection.com/portal/portal'' 0))
       ''111'')"
  have "LocalStorage_GetStatistics ?s ''222'' = (Returns (Some DAList.empty, None), ?s)"
    by (simp add: LocalStorage_SaveURL_def newLocalStorage_def GetURL_hit [where u = DAList.empty]
        LocalStorage_GetStatistics_def)
  then show ?thesis
    by (simp add: GetUsageStats_eq [where GetStatistics = LocalStorage_GetStatistics]
        mapIndex_def buckets_def DAList.empty.rep_eq)
qed

lemma test_create:
  "fst (shortieAPI_CreateURL LocalStorage_SaveURL newLocalStorage
     (Inr (''https://example.com/data/hi'', 0)))
   = Returns (JSONShortUrl StatusOK ''http://localhost:8421/shortie/4e24c46962'')"
  by (simp add: shortieAPI_CreateURL_def test_vector LocalStorage_SaveURL_def newLocalStorage_def)

lemma test_create_existing:
  "shortieAPI_CreateURL LocalStorage_SaveURL
     (snd (LocalStorage_GetURL now
       (snd (LocalStorage_SaveURL newLocalStorage ''4e24c46962'' ''https://example.com/data/hi'' 0))
       ''4e24c46962''))
     (Inr (''https://example.com/data/hi'', 0))
   = (Returns (JSONShortUrl StatusOK ''http://localhost:8421/shortie/4e24c46962''),
      snd (LocalStorage_GetURL now
       (snd (LocalStorage_SaveURL newLocalStorage ''4e24c46962'' ''https://example.com/data/hi'' 0))
       ''4e24c46962''))
   \<and> bucket (snd (LocalStorage_GetURL now
       (snd (LocalStorage_SaveURL newLocalStorage ''4e24c46962'' ''https://example.com/data/hi'' 0))
       ''4e24c46962'')) ''4e24c46962'' (spec_dayBucketKey now) = Some 1"
  by (simp add: shortieAPI_CreateURL_def test_vector LocalStorage_SaveURL_def newLocalStorage_def
      GetURL_hit [where u = DAList.empty] bucket_def mapIndex_def)

section \<open>Properties of the storage core\<close>

text \<open>
  Claim C1. On an identifier that is absent, \<open>Get\<close> returns the empty string and no
  error, \<open>GetStatistics\<close> an empty mapping and no error, and \<open>Delete\<close> succeeds, on both
  backends. The in-memory backend does all three, and the remote backend the first and the
  third (\<open>miss_semantics_elsewhere\<close>). \<open>DynamoStorage.GetStatistics\<close> does not: \<open>getObject\<close>
  answers a missing item with a nil record and a nil error, and \<open>GetStatistics\<close> reads the
  \<open>Usage\<close> field of that nil record, without the check that \<open>DynamoStorage.GetURL\<close> makes.
  The call panics whenever the item is absent (\<open>Dynamo_GetStatistics_absent\<close>), as here on
  the empty table.
\<close>

theorem dynamo_statistics_miss_panics:
  "DynamoStorage_GetStatistics None \<lparr>items = Map.empty, spawned = []\<rparr> ''222''
     = (Panics NilPointerDereference, \<lparr>items = Map.empty, spawned = []\<rparr>)"
  by (simp add: DynamoStorage_GetStatistics_def DynamoStorage_getObject_def
      GetItemWithContext_def)

text \<open>
  Claim C2. Creation is idempotent and the first writer wins. In a state that holds a
  record for the identifier, \<open>SaveURL\<close> with any other URL and expiration returns a nil
  error and leaves the whole state as it was, on the in-memory backend and on the remote
  one (whose table stays the same even when the SDK call fails). Calling \<open>SaveURL\<close> twice
  with one identifier returns a nil error both times; the second call changes nothing, and
  the state then holds one record for the identifier beside the records it held before,
  with the URL, the expiration and the empty usage of the first call when the identifier
  was new (on the remote backend the empty usage is what \<open>GetStatistics\<close> reads back).
\<close>

theorem idempotent_create:
  assumes "Objects s = Some objs"
  shows "(objs shortID \<noteq> None \<longrightarrow>
           LocalStorage_SaveURL s shortID url' expiration' = (Returns None, s))
       \<and> (items st shortID \<noteq> None \<longrightarrow>
           DynamoStorage_SaveURL None st shortID url' expiration' = (Returns None, st)
           \<and> snd (DynamoStorage_SaveURL fault st shortID url' expiration') = st)
       \<and> (\<exists>s1 objs1 object.
            LocalStorage_SaveURL s shortID url expiration = (Returns None, s1)
          \<and> LocalStorage_SaveURL s1 shortID url' expiration' = (Returns None, s1)
          \<and> Objects s1 = Some objs1 \<and> objs1 shortID = Some object
          \<and> dom objs1 = insert shortID (dom objs)
          \<and> (objs shortID = None \<longrightarrow> URL object = url \<and> Expiration object = expiration
                \<and> Usage object = Some DAList.empty))
       \<and> (\<exists>st1 item.
            DynamoStorage_SaveURL None st shortID url expiration = (Returns None, st1)
          \<and> DynamoStorage_SaveURL None st1 shortID url' expiration' = (Returns None, st1)
          \<and> items st1 shortID = Some item
          \<and> dom (items st1) = insert shortID (dom (items st))
          \<and> (items st shortID = None \<longrightarrow> URL item = url \<and> Expiration item = expiration
                \<and> DynamoStorage_GetStatistics None st1 shortID
                    = (Returns (Some DAList.empty, None), st1)))"
proof -
  have local_existing: "objs shortID \<noteq> None \<longrightarrow>
      LocalStorage_SaveURL s shortID url' expiration' = (Returns None, s)"
    using assms by (auto simp: SaveURL_existing)
  have dynamo_existing: "items st shortID \<noteq> None \<longrightarrow>
      DynamoStorage_SaveURL None st shortID url' expiration' = (Returns None, st)
      \<and> snd (DynamoStorage_SaveURL fault st shortID url' expiration') = st"
    by (auto simp: Dynamo_SaveURL_existing)
  have local_twice: "\<exists>s1 objs1 object.
            LocalStorage_SaveURL s shortID url expiration = (Returns None, s1)
          \<and> LocalStorage_SaveURL s1 shortID url' expiration' = (Returns None, s1)
          \<and> Objects s1 = Some objs1 \<and> objs1 shortID = Some object
          \<and> dom objs1 = insert shortID (dom objs)
          \<and> (objs shortID = None \<longrightarrow> URL object = url \<and> Expiration object = expiration
                \<and> Usage object = Some DAList.empty)"
  proof (cases "objs shortID")
    case None
    with assms show ?thesis
      by (simp add: SaveURL_fresh SaveURL_existing)
  next
    case (Some object)
    with assms show ?thesis
      by (auto simp: SaveURL_existing)
  qed
  have dynamo_twice: "\<exists>st1 item.
            DynamoStorage_SaveURL None st shortID url expiration = (Returns None, st1)
          \<and> DynamoStorage_SaveURL None st1 shortID url' expiration' = (Returns None, st1)
          \<and> items st1 shortID = Some item
          \<and> dom (items st1) = insert shortID (dom (items st))
          \<and> (items st shortID = None \<longrightarrow> URL item = url \<and> Expiration item = expiration
                \<and> DynamoStorage_GetStatistics None st1 shortID
                    = (Returns (Some DAList.empty, None), st1))"
  proof (cases "items st shortID")
    case None
    then show ?thesis
      by (simp add: Dynamo_SaveURL_fresh Dynamo_SaveURL_existing Dynamo_GetStatistics_present)
  next
    case (Some item)
    then show ?thesis
      by (auto simp: Dynamo_SaveURL_existing)
  qed
  from local_existing dynamo_existing local_twice dynamo_twice show ?thesis
    by blast
qed

theorem idempotent_create_witness:
  "Objects \<lparr>Objects = Some [''abc'' \<mapsto> \<lparr>ShortID = ''abc'', URL = ''http://x.com'', Version = 0,
       Expiration = 0, Usage = Some DAList.empty\<rparr>]\<rparr>
     = Some [''abc'' \<mapsto> \<lparr>ShortID = ''abc'', URL = ''http://x.com'', Version = 0,
       Expiration = 0, Usage = Some DAList.empty\<rparr>]
   \<and> LocalStorage_SaveURL
        \<lparr>Objects = Some [''abc'' \<mapsto> \<lparr>ShortID = ''abc'', URL = ''http://x.com'', Version = 0,
           Expiration = 0, Usage = Some DAList.empty\<rparr>]\<rparr> ''abc'' ''http://y.com'' 5
      = (Returns None,
         \<lparr>Objects = Some [''abc'' \<mapsto> \<lparr>ShortID = ''abc'', URL = ''http://x.com'', Version = 0,
           Expiration = 0, Usage = Some DAList.empty\<rparr>]\<rparr>)
   \<and> DynamoStorage_SaveURL None
        \<lparr>items = [''abc'' \<mapsto> \<lparr>ShortID = ''abc'', URL = ''http://x.com'', Version = 0,
           Expiration = 0, Usage = None\<rparr>], spawned = []\<rparr> ''abc'' ''http://y.com'' 5
      = (Returns None,
         \<lparr>items = [''abc'' \<mapsto> \<lparr>ShortID = ''abc'', URL = ''http://x.com'', Version = 0,
           Expiration = 0, Usage = None\<rparr>], spawned = []\<rparr>)"
  using idempotent_create
    [where s = "\<lparr>Objects = Some [''abc'' \<mapsto> \<lparr>ShortID = ''abc'', URL = ''http://x.com'',
         Version = 0, Expiration = 0, Usage = Some DAList.empty\<rparr>]\<rparr>"
       and objs = "[''abc'' \<mapsto> \<lparr>ShortID = ''abc'', URL = ''http://x.com'',
         Version = 0, Expiration = 0, Usage = Some DAList.empty\<rparr>]"
       and st = "\<lparr>items = [''abc'' \<mapsto> \<lparr>ShortID = ''abc'', URL = ''http://x.com'', Version = 0,
           Expiration = 0, Usage = None\<rparr>], spawned = []\<rparr>"
       and shortID = "''abc''" and url' = "''http://y.com''" and expiration' = 5]
  by simp

text \<open>
  Claim C3. For every usage mapping \<open>lastWeek\<close> is the sum of today's bucket and of the
  six buckets before it, and \<open>allTime\<close> the sum of every bucket. \<open>GetUsageStats\<close> does not
  keep to that at midnight: it reads the clock once for \<open>todayTimestamp\<close>, from which the
  loop steps back, and a second time for the key of today's bucket, where it could have
  used \<open>todayTimestamp\<close>. With the first reading in the last nanosecond of a day and the
  second at the midnight that follows, the loop starts one day before the first day and
  today's key is that of the second day, so the bucket of the first day is in neither.
  After three reads of a record on that first day the handler answers \<open>lastDay = 0\<close>,
  \<open>lastWeek = 0\<close>, \<open>allTime = 3\<close>, while the sum of today's bucket and the six before it
  is 3, whichever of the two days is today. (When both readings fall on one day the
  handler does what the claim says: \<open>week_window_same_day\<close>.)
\<close>

theorem week_across_midnight:
  "UTCDay 63866275199999999999 = 20030
   \<and> UTCDay 63866275200000000000 = 20031
   \<and> snd (LocalStorage_GetURL 63866234096500000000
        (snd (LocalStorage_GetURL 63866234096500000000
          (snd (LocalStorage_GetURL 63866234096500000000
            (snd (LocalStorage_SaveURL newLocalStorage ''abc'' ''http://x.com'' 0))
            ''abc'')) ''abc'')) ''abc'')
       = \<lparr>Objects = Some [''abc'' \<mapsto> \<lparr>ShortID = ''abc'', URL = ''http://x.com'', Version = 0,
            Expiration = 0, Usage = Some (DAList.update ''1730592000'' 3 DAList.empty)\<rparr>]\<rparr>
   \<and> shortieAPI_GetUsageStats LocalStorage_GetStatistics
        63866275199999999999 63866275200000000000
        \<lparr>Objects = Some [''abc'' \<mapsto> \<lparr>ShortID = ''abc'', URL = ''http://x.com'', Version = 0,
            Expiration = 0, Usage = Some (DAList.update ''1730592000'' 3 DAList.empty)\<rparr>]\<rparr>
        ''abc''
       = (Returns (JSONStats StatusOK 0 0 3),
          \<lparr>Objects = Some [''abc'' \<mapsto> \<lparr>ShortID = ''abc'', URL = ''http://x.com'', Version = 0,
            Expiration = 0, Usage = Some (DAList.update ''1730592000'' 3 DAList.empty)\<rparr>]\<rparr>)
   \<and> (\<Sum>k\<in>{20030 - 6..20030}.
         mapIndex (Some (DAList.update ''1730592000'' 3 DAList.empty)) (dayKey k)) = 3
   \<and> (\<Sum>k\<in>{20031 - 6..20031}.
         mapIndex (Some (DAList.update ''1730592000'' 3 DAList.empty)) (dayKey k)) = 3"
proof -
  let ?s = "\<lambda>usage. \<lparr>Objects = Some [''abc'' \<mapsto> \<lparr>ShortID = ''abc'', URL = ''http://x.com'',
              Version = 0, Expiration = 0, Usage = Some usage\<rparr>]\<rparr>"
  let ?u = "DAList.update (dayKey 20030) 3 DAList.empty :: usage_map"
  have key: "''1730592000'' = dayKey 20030"
    by (simp add: example_keys)
  have save: "snd (LocalStorage_SaveURL newLocalStorage ''abc'' ''http://x.com'' 0)
      = ?s DAList.empty"
    by (simp add: LocalStorage_SaveURL_def newLocalStorage_def)
  have run: "snd (LocalStorage_GetURL 63866234096500000000
        (snd (LocalStorage_GetURL 63866234096500000000
          (snd (LocalStorage_GetURL 63866234096500000000 (?s DAList.empty) ''abc''))
          ''abc'')) ''abc'') = ?s ?u"
    using GetURL_single [OF example_day, of "''abc''" "''http://x.com''" 0 1 DAList.empty]
      GetURL_single [OF example_day, of "''abc''" "''http://x.com''" 0 2 DAList.empty]
    by (simp add: GetURL_first [OF example_day])
  have stats: "LocalStorage_GetStatistics (?s ?u) ''abc'' = (Returns (Some ?u, None), ?s ?u)"
    by (simp add: LocalStorage_GetStatistics_def)
  have b: "buckets (Some ?u) = {dayKey 20030}"
    by (simp add: buckets_def DAList.update.rep_eq DAList.empty.rep_eq)
  have handler: "shortieAPI_GetUsageStats LocalStorage_GetStatistics
        63866275199999999999 63866275200000000000 (?s ?u) ''abc''
      = (Returns (JSONStats StatusOK 0 0 3), ?s ?u)"
    by (simp add: GetUsageStats_eq [where GetStatistics = LocalStorage_GetStatistics, OF stats]
        late_day next_day b mapIndex_def DAList.lookup_update dayKey_inject)
  have week: "(\<Sum>k\<in>{20030 - 6..20030}. mapIndex (Some ?u) (dayKey k)) = 3"
    by (simp only: sum_week) (simp add: mapIndex_def DAList.lookup_update dayKey_inject)
  have week': "(\<Sum>k\<in>{20031 - 6..20031}. mapIndex (Some ?u) (dayKey k)) = 3"
    by (simp only: sum_week) (simp add: mapIndex_def DAList.lookup_update dayKey_inject)
  show ?thesis
    unfolding key save using late_day next_day run handler week week' by simp
qed

text \<open>
  Claim C4. Usage accounting. From the initial state of the in-memory backend, after
  \<open>SaveURL\<close> with expiration 0 and three calls of \<open>GetURL\<close>, each of which returns the URL
  and a nil error, \<open>GetStatistics\<close> returns a mapping with one bucket, today's, of value 3,
  the increments being there as soon as each \<open>GetURL\<close> has returned; \<open>GetUsageStats\<close> on it
  answers \<open>lastDay = 3\<close>, \<open>lastWeek = 3\<close>, \<open>allTime = 3\<close>. All clock readings fall on one
  UTC day \<open>d\<close>.
\<close>

theorem usage_accounting:
  assumes "UTCDay t1 = d" and "UTCDay t2 = d" and "UTCDay t3 = d"
    and "UTCDay t4 = d" and "UTCDay t5 = d"
  shows "\<exists>s1 s2 s3 s4.
           LocalStorage_SaveURL newLocalStorage shortID url 0 = (Returns None, s1)
         \<and> LocalStorage_GetURL t1 s1 shortID = (Returns (url, None), s2)
         \<and> LocalStorage_GetURL t2 s2 shortID = (Returns (url, None), s3)
         \<and> LocalStorage_GetURL t3 s3 shortID = (Returns (url, None), s4)
         \<and> LocalStorage_GetStatistics s4 shortID
             = (Returns (Some (DAList.update (dayKey d) 3 DAList.empty), None), s4)
         \<and> DAList.impl_of (DAList.update (dayKey d) 3 DAList.empty) = [(dayKey d, 3 :: int64)]
         \<and> shortieAPI_GetUsageStats LocalStorage_GetStatistics t4 t5 s4 shortID
             = (Returns (JSONStats StatusOK 3 3 3), s4)"
proof -
  let ?s = "\<lambda>usage. \<lparr>Objects = Some [shortID \<mapsto> \<lparr>ShortID = shortID, URL = url, Version = 0,
              Expiration = 0, Usage = Some usage\<rparr>]\<rparr>"
  let ?u = "DAList.update (dayKey d) 3 DAList.empty"
  have save: "LocalStorage_SaveURL newLocalStorage shortID url 0 = (Returns None, ?s DAList.empty)"
    by (simp add: LocalStorage_SaveURL_def newLocalStorage_def)
  have get1: "LocalStorage_GetURL t1 (?s DAList.empty) shortID
      = (Returns (url, None), ?s (DAList.update (dayKey d) 1 DAList.empty))"
    using assms(1) by (rule GetURL_first)
  have get2: "LocalStorage_GetURL t2 (?s (DAList.update (dayKey d) 1 DAList.empty)) shortID
      = (Returns (url, None), ?s (DAList.update (dayKey d) 2 DAList.empty))"
    using GetURL_single [OF assms(2), of shortID url 0 1 DAList.empty] by simp
  have get3: "LocalStorage_GetURL t3 (?s (DAList.update (dayKey d) 2 DAList.empty)) shortID
      = (Returns (url, None), ?s ?u)"
    using GetURL_single [OF assms(3), of shortID url 0 2 DAList.empty] by simp
  have stats: "LocalStorage_GetStatistics (?s ?u) shortID = (Returns (Some ?u, None), ?s ?u)"
    by (simp add: LocalStorage_GetStatistics_def)
  have entries: "DAList.impl_of ?u = [(dayKey d, 3)]"
    by (simp add: DAList.update.rep_eq DAList.empty.rep_eq)
  have b: "buckets (Some ?u) = {dayKey d}"
    by (simp add: buckets_def entries)
  have "shortieAPI_GetUsageStats LocalStorage_GetStatistics t4 t5 (?s ?u) shortID
      = (Returns (JSONStats StatusOK 3 3 3), ?s ?u)"
    using assms(4,5)
    by (simp add: GetUsageStats_eq [where GetStatistics = LocalStorage_GetStatistics, OF stats]
        b mapIndex_def DAList.lookup_update dayKey_inject)
  with save get1 get2 get3 stats entries show ?thesis
    by blast
qed

theorem usage_accounting_witness:
  "UTCDay 63866234096500000000 = 20030
   \<and> (\<exists>s1 s2 s3 s4.
         LocalStorage_SaveURL newLocalStorage ''abc'' ''http://x.com'' 0 = (Returns None, s1)
       \<and> LocalStorage_GetURL 63866234096500000000 s1 ''abc'' = (Returns (''http://x.com'', None), s2)
       \<and> LocalStorage_GetURL 63866234096500000000 s2 ''abc'' = (Returns (''http://x.com'', None), s3)
       \<and> LocalStorage_GetURL 63866234096500000000 s3 ''abc'' = (Returns (''http://x.com'', None), s4)
       \<and> LocalStorage_GetStatistics s4 ''abc''
           = (Returns (Some (DAList.update ''1730592000'' 3 DAList.empty), None), s4)
       \<and> DAList.impl_of (DAList.update ''1730592000'' 3 DAList.empty)
           = [(''1730592000'', 3 :: int64)]
       \<and> shortieAPI_GetUsageStats LocalStorage_GetStatistics
            63866234096500000000 63866234096500000000 s4 ''abc''
           = (Returns (JSONStats StatusOK 3 3 3), s4))"
  using usage_accounting [OF example_day example_day example_day example_day example_day,
      of "''abc''" "''http://x.com''"]
  by (simp add: example_day example_keys)

text \<open>
  Claim C5. The identifier is a function of the URL alone: for every URL \<open>CreateURL\<close>
  derives an identifier of ten characters, each a digit or a lowercase letter from \<open>a\<close> to
  \<open>f\<close>, and two requests to create the same URL, whatever their expirations and whatever
  the state of the in-memory backend (its map not nil), answer with the same short URL,
  the second leaving the state as the first left it. For the URL of the repository's
  test the identifier is the one the test expects.
\<close>

theorem short_identifier:
  assumes "Objects s = Some objs"
  shows "\<exists>shortID s1.
           CreateURL_shortID url = Returns shortID
         \<and> length shortID = 10
         \<and> set shortID \<subseteq> set ''0123456789abcdef''
         \<and> shortieAPI_CreateURL LocalStorage_SaveURL s (Inr (url, expiration))
             = (Returns (JSONShortUrl StatusOK (''http://localhost:8421/shortie/'' @ shortID)), s1)
         \<and> shortieAPI_CreateURL LocalStorage_SaveURL s1 (Inr (url, expiration'))
             = (Returns (JSONShortUrl StatusOK (''http://localhost:8421/shortie/'' @ shortID)), s1)"
proof -
  define shortID where "shortID = take 10 (hex_Encode (NewSHA1 NameSpaceURL (map of_char url)))"
  define s1 where "s1 = snd (LocalStorage_SaveURL s shortID url expiration)"
  have gen: "CreateURL_shortID url = Returns shortID"
    by (simp add: shortID_def CreateURL_shortID_eq)
  have len: "length shortID = 10"
    by (simp add: shortID_def length_hex_Encode NewSHA1_def length_NewHash)
  have chars: "set shortID \<subseteq> set ''0123456789abcdef''"
    unfolding shortID_def using set_hex_Encode set_take_subset by (rule order_trans [rotated])
  have first: "shortieAPI_CreateURL LocalStorage_SaveURL s (Inr (url, expiration))
      = (Returns (JSONShortUrl StatusOK (''http://localhost:8421/shortie/'' @ shortID)), s1)"
    unfolding s1_def using assms gen by (rule CreateURL_local)
  obtain objs1 object where s1: "Objects s1 = Some objs1" and o1: "objs1 shortID = Some object"
    using assms unfolding s1_def
    by (cases "objs shortID") (auto simp: SaveURL_fresh SaveURL_existing)
  have "shortieAPI_CreateURL LocalStorage_SaveURL s1 (Inr (url, expiration'))
      = (Returns (JSONShortUrl StatusOK (''http://localhost:8421/shortie/'' @ shortID)),
         snd (LocalStorage_SaveURL s1 shortID url expiration'))"
    using s1 gen by (rule CreateURL_local)
  then have second: "shortieAPI_CreateURL LocalStorage_SaveURL s1 (Inr (url, expiration'))
      = (Returns (JSONShortUrl StatusOK (''http://localhost:8421/shortie/'' @ shortID)), s1)"
    using s1 o1 by (simp add: SaveURL_existing)
  from gen len chars first second show ?thesis
    by blast
qed

theorem short_identifier_witness:
  "Objects newLocalStorage = Some Map.empty
   \<and> CreateURL_shortID ''https://example.com/data/hi'' = Returns ''4e24c46962''
   \<and> length ''4e24c46962'' = 10
   \<and> (\<exists>s1. shortieAPI_CreateURL LocalStorage_SaveURL newLocalStorage
              (Inr (''https://example.com/data/hi'', 0))
            = (Returns (JSONShortUrl StatusOK ''http://localhost:8421/shortie/4e24c46962''), s1)
          \<and> shortieAPI_CreateURL LocalStorage_SaveURL s1
              (Inr (''https://example.com/data/hi'', 7))
            = (Returns (JSONShortUrl StatusOK ''http://localhost:8421/shortie/4e24c46962''), s1))"
proof -
  have h: "Objects newLocalStorage = Some Map.empty"
    by (simp add: newLocalStorage_def)
  from short_identifier [OF h, of "''https://example.com/data/hi''" 0 7] test_vector h
  show ?thesis
    by auto
qed

text \<open>
  Claim C6. No read path looks at the expiration: whatever expiration \<open>e\<close> the record of
  an identifier carries, zero or not, before or after the current time, \<open>GetURL\<close> returns
  the URL of the record and a nil error, on the in-memory backend (where the usage map of
  a record is not nil) and on the remote backend (when the SDK call does not fail).
\<close>

theorem expiration_not_enforced:
  assumes "Objects s = Some objs" and "objs shortID = Some object" and "Usage object \<noteq> None"
    and "items st shortID = Some item"
  shows "fst (LocalStorage_GetURL now
              (s\<lparr>Objects := Some (objs(shortID \<mapsto> object\<lparr>Expiration := e\<rparr>))\<rparr>) shortID)
           = Returns (URL object, None)
       \<and> fst (DynamoStorage_GetURL None
              (st\<lparr>items := (items st)(shortID \<mapsto> item\<lparr>Expiration := e\<rparr>)\<rparr>) shortID)
           = Returns (URL item, None)"
proof -
  from assms(3) obtain u where "Usage object = Some u"
    by blast
  then have "fst (LocalStorage_GetURL now
              (s\<lparr>Objects := Some (objs(shortID \<mapsto> object\<lparr>Expiration := e\<rparr>))\<rparr>) shortID)
           = Returns (URL object, None)"
    by (simp add: GetURL_hit [where u = u])
  moreover have "fst (DynamoStorage_GetURL None
              (st\<lparr>items := (items st)(shortID \<mapsto> item\<lparr>Expiration := e\<rparr>)\<rparr>) shortID)
           = Returns (URL item, None)"
    by (simp add: DynamoStorage_GetURL_def Dynamo_getObject_present)
  ultimately show ?thesis by simp
qed

theorem expiration_not_enforced_witness:
  "Unix 63866188800000000000 = 1730592000
   \<and> fst (LocalStorage_GetURL 63866188800000000000
        \<lparr>Objects = Some [''abc'' \<mapsto> \<lparr>ShortID = ''abc'', URL = ''http://x.com'', Version = 0,
           Expiration = 1000, Usage = Some DAList.empty\<rparr>]\<rparr> ''abc'')
      = Returns (''http://x.com'', None)
   \<and> fst (DynamoStorage_GetURL None
        \<lparr>items = [''abc'' \<mapsto> \<lparr>ShortID = ''abc'', URL = ''http://x.com'', Version = 0,
           Expiration = 1000, Usage = None\<rparr>], spawned = []\<rparr> ''abc'')
      = Returns (''http://x.com'', None)"
  using expiration_not_enforced
    [where s = "\<lparr>Objects = Some [''abc'' \<mapsto> \<lparr>ShortID = ''abc'', URL = ''http://x.com'',
         Version = 0, Expiration = 0, Usage = Some DAList.empty\<rparr>]\<rparr>"
       and objs = "[''abc'' \<mapsto> \<lparr>ShortID = ''abc'', URL = ''http://x.com'',
         Version = 0, Expiration = 0, Usage = Some DAList.empty\<rparr>]"
       and object = "\<lparr>ShortID = ''abc'', URL = ''http://x.com'',
         Version = 0, Expiration = 0, Usage = Some DAList.empty\<rparr>"
       and st = "\<lparr>items = [''abc'' \<mapsto> \<lparr>ShortID = ''abc'', URL = ''http://x.com'', Version = 0,
           Expiration = 0, Usage = None\<rparr>], spawned = []\<rparr>"
       and item = "\<lparr>ShortID = ''abc'', URL = ''http://x.com'', Version = 0,
           Expiration = 0, Usage = None\<rparr>"
       and shortID = "''abc''" and e = 1000 and now = 63866188800000000000]
  by (simp add: Unix_def Second_def unixToInternal_def)

text \<open>
  Claim C7. One derivation of the key of today's bucket. The expression that the writers
  and the reader evaluate on the clock reading \<open>now\<close> is the key of the specification:
  the decimal string of the Unix time of the UTC midnight before \<open>now\<close>. \<open>GetURL\<close> of the
  in-memory backend and the goroutine of the remote \<open>GetURL\<close> increment the bucket under
  that key and no other, and \<open>GetUsageStats\<close> reports as \<open>lastDay\<close> the bucket under that key.
\<close>

theorem day_bucket_key_consistent:
  assumes "Objects s = Some objs" and "objs shortID = Some object" and "Usage object = Some u"
  shows "Itoa (Unix (UTCTimestampOfTodayRounded now)) = spec_dayBucketKey now
       \<and> snd (LocalStorage_GetURL now s shortID)
           = s\<lparr>Objects := Some (objs(shortID \<mapsto> object\<lparr>Usage :=
               Some (DAList.update (spec_dayBucketKey now)
                      (mapIndex (Some u) (spec_dayBucketKey now) + 1) u)\<rparr>))\<rparr>
       \<and> DynamoStorage_GetURL_func now None object tbl
           = (Returns [], tbl(ShortID object \<mapsto> object\<lparr>Usage :=
               Some (DAList.update (spec_dayBucketKey now)
                      (mapIndex (Some u) (spec_dayBucketKey now) + 1) u)\<rparr>))
       \<and> (\<exists>lastWeek allTime.
             shortieAPI_GetUsageStats (\<lambda>st shortID. (Returns (usage, None), st)) now' now st' shortID
               = (Returns (JSONStats StatusOK (mapIndex usage (spec_dayBucketKey now))
                    lastWeek allTime), st'))"
proof -
  have key: "Itoa (Unix (UTCTimestampOfTodayRounded now)) = spec_dayBucketKey now"
    by (rule todayKey_spec)
  have writer: "snd (LocalStorage_GetURL now s shortID)
           = s\<lparr>Objects := Some (objs(shortID \<mapsto> object\<lparr>Usage :=
               Some (DAList.update (spec_dayBucketKey now)
                      (mapIndex (Some u) (spec_dayBucketKey now) + 1) u)\<rparr>))\<rparr>"
    using assms by (simp add: GetURL_hit)
  have goroutine: "DynamoStorage_GetURL_func now None object tbl
           = (Returns [], tbl(ShortID object \<mapsto> object\<lparr>Usage :=
               Some (DAList.update (spec_dayBucketKey now)
                      (mapIndex (Some u) (spec_dayBucketKey now) + 1) u)\<rparr>))"
    using assms(3)
    by (simp add: DynamoStorage_GetURL_func_def key mapAssign_def MarshalMap_updated
        PutItemWithContext_def Let_def)
  have reader: "\<exists>lastWeek allTime.
      shortieAPI_GetUsageStats (\<lambda>st shortID. (Returns (usage, None), st)) now' now st' shortID
        = (Returns (JSONStats StatusOK (mapIndex usage (spec_dayBucketKey now))
             lastWeek allTime), st')"
    by (simp add: GetUsageStats_eq spec_dayBucketKey_def)
  from key writer goroutine reader show ?thesis
    by blast
qed

theorem day_bucket_key_consistent_witness:
  "spec_dayBucketKey 63866234096500000000 = ''1730592000''
   \<and> Itoa (Unix (UTCTimestampOfTodayRounded 63866234096500000000)) = ''1730592000''
   \<and> snd (LocalStorage_GetURL 63866234096500000000
        \<lparr>Objects = Some [''abc'' \<mapsto> \<lparr>ShortID = ''abc'', URL = ''http://x.com'', Version = 0,
           Expiration = 0, Usage = Some DAList.empty\<rparr>]\<rparr> ''abc'')
      = \<lparr>Objects = Some [''abc'' \<mapsto> \<lparr>ShortID = ''abc'', URL = ''http://x.com'', Version = 0,
           Expiration = 0, Usage = Some (DAList.update ''1730592000'' 1 DAList.empty)\<rparr>]\<rparr>"
  using day_bucket_key_consistent
    [where s = "\<lparr>Objects = Some [''abc'' \<mapsto> \<lparr>ShortID = ''abc'', URL = ''http://x.com'',
         Version = 0, Expiration = 0, Usage = Some DAList.empty\<rparr>]\<rparr>"
       and objs = "[''abc'' \<mapsto> \<lparr>ShortID = ''abc'', URL = ''http://x.com'',
         Version = 0, Expiration = 0, Usage = Some DAList.empty\<rparr>]"
       and object = "\<lparr>ShortID = ''abc'', URL = ''http://x.com'',
         Version = 0, Expiration = 0, Usage = Some DAList.empty\<rparr>"
       and u = DAList.empty and shortID = "''abc''" and now = 63866234096500000000
       and tbl = Map.empty and usage = None and now' = 63866234096500000000 and st' = "()"]
  by (simp add: spec_dayBucketKey_def example_day example_keys mapIndex_def)

text \<open>
  Claim C8. The usage mapping only grows. A bucket that a record holds with a value \<open>v\<close>
  below the largest \<open>int64\<close> is still there after \<open>SaveURL\<close>, \<open>GetStatistics\<close> or \<open>GetURL\<close> on
  any identifier: with the same value after the first two, and after \<open>GetURL\<close> with
  \<open>v + 1\<close> when it is today's bucket of the record read and with \<open>v\<close> otherwise, never
  with less. This holds in every state, reachable or not. (A bucket at the largest
  \<open>int64\<close>, which takes that many reads within one UTC day, would wrap around.)
\<close>

theorem usage_only_grows:
  assumes "bucket s shortID key = Some v" and "v \<noteq> MaxInt64"
  shows "bucket (snd (LocalStorage_SaveURL s shortID' url expiration)) shortID key = Some v
       \<and> bucket (snd (LocalStorage_GetStatistics s shortID')) shortID key = Some v
       \<and> (\<exists>v'. bucket (snd (LocalStorage_GetURL now s shortID')) shortID key = Some v'
             \<and> v' = (if shortID' = shortID \<and> key = spec_dayBucketKey now then v + 1 else v)
             \<and> sint v \<le> sint v')"
  using assms
  by (simp add: bucket_SaveURL bucket_GetStatistics bucket_GetURL sint_increment)

theorem usage_only_grows_witness:
  "bucket (snd (LocalStorage_GetURL 63866234096500000000
       (snd (LocalStorage_SaveURL newLocalStorage ''abc'' ''http://x.com'' 0)) ''abc''))
     ''abc'' ''1730592000'' = Some 1
   \<and> (1 :: int64) \<noteq> MaxInt64
   \<and> bucket (snd (LocalStorage_GetURL 63866234096500000000
       (snd (LocalStorage_GetURL 63866234096500000000
         (snd (LocalStorage_SaveURL newLocalStorage ''abc'' ''http://x.com'' 0)) ''abc''))
       ''abc'')) ''abc'' ''1730592000'' = Some 2
   \<and> sint (1 :: int64) \<le> sint (2 :: int64)"
proof -
  let ?s = "snd (LocalStorage_GetURL 63866234096500000000
       (snd (LocalStorage_SaveURL newLocalStorage ''abc'' ''http://x.com'' 0)) ''abc'')"
  have b: "bucket ?s ''abc'' ''1730592000'' = Some 1"
    by (simp add: LocalStorage_SaveURL_def newLocalStorage_def GetURL_first [OF example_day]
        example_keys bucket_def)
  have m: "(1 :: int64) \<noteq> MaxInt64"
    by (simp add: MaxInt64_def)
  show ?thesis
    using b m usage_only_grows [OF b m, of "''abc''" "''http://x.com''" 0 63866234096500000000]
    by (simp add: spec_dayBucketKey_def example_day example_keys)
qed

text \<open>
  Claim C9. The empty string stands for a miss, so a record with an empty URL cannot be
  told from no record: after \<open>SaveURL\<close> of the empty URL under a new identifier the record
  is stored, yet \<open>GetURL\<close> returns the empty string and a nil error, exactly what it returns
  before the record exists, and \<open>HandleRedirect\<close> answers 404 Not Found.
\<close>

theorem empty_url_is_a_miss:
  assumes "Objects s = Some objs" and "objs shortID = None"
  shows "\<exists>s1 objs1 object.
           LocalStorage_SaveURL s shortID '''' expiration = (Returns None, s1)
         \<and> Objects s1 = Some objs1 \<and> objs1 shortID = Some object \<and> URL object = ''''
         \<and> fst (LocalStorage_GetURL now s1 shortID) = Returns ('''', None)
         \<and> fst (LocalStorage_GetURL now s shortID) = Returns ('''', None)
         \<and> fst (shortieAPI_HandleRedirect (LocalStorage_GetURL now) s1 shortID)
             = Returns (Text StatusNotFound ''Not Found'')"
  using assms
  by (simp add: SaveURL_fresh GetURL_miss GetURL_hit shortieAPI_HandleRedirect_def)

theorem empty_url_is_a_miss_witness:
  "Objects newLocalStorage = Some Map.empty
   \<and> fst (LocalStorage_GetURL 63866188800000000000
          (snd (LocalStorage_SaveURL newLocalStorage ''abc'' '''' 0)) ''abc'')
       = Returns ('''', None)
   \<and> fst (LocalStorage_GetURL 63866188800000000000 newLocalStorage ''abc'')
       = Returns ('''', None)
   \<and> fst (shortieAPI_HandleRedirect (LocalStorage_GetURL 63866188800000000000)
          (snd (LocalStorage_SaveURL newLocalStorage ''abc'' '''' 0)) ''abc'')
       = Returns (Text StatusNotFound ''Not Found'')"
  using empty_url_is_a_miss
    [where s = newLocalStorage and objs = Map.empty and shortID = "''abc''"
       and expiration = 0 and now = 63866188800000000000]
  by (auto simp: newLocalStorage_def)

text \<open>
  Claim C10. The in-memory backend is total and free of errors: in every state of the
  backend, that is, every state whose maps are not nil, as all reachable states are
  (\<open>reachable_valid\<close>), each of \<open>SaveURL\<close>, \<open>GetURL\<close>, \<open>DeleteURL\<close> and \<open>GetStatistics\<close>
  returns, on every input, and the error it returns is nil.
\<close>

theorem local_backend_error_free:
  assumes "valid s"
  shows "fst (LocalStorage_SaveURL s shortID url expiration) = Returns None
       \<and> (\<exists>result. fst (LocalStorage_GetURL now s shortID) = Returns (result, None))
       \<and> fst (LocalStorage_DeleteURL s shortID) = Returns None
       \<and> (\<exists>usage. fst (LocalStorage_GetStatistics s shortID) = Returns (usage, None))"
proof -
  from assms obtain objs where objs: "Objects s = Some objs"
    using valid_Objects by blast
  have save: "fst (LocalStorage_SaveURL s shortID url expiration) = Returns None"
    using objs by (simp add: LocalStorage_SaveURL_def split: option.splits)
  have get: "\<exists>result. fst (LocalStorage_GetURL now s shortID) = Returns (result, None)"
  proof (cases "objs shortID")
    case None
    with objs show ?thesis by (simp add: GetURL_miss)
  next
    case (Some object)
    with assms objs obtain u where "Usage object = Some u"
      using valid_Usage by blast
    with objs Some show ?thesis by (simp add: GetURL_hit)
  qed
  have del: "fst (LocalStorage_DeleteURL s shortID) = Returns None"
    by (simp add: LocalStorage_DeleteURL_def split: option.splits)
  have stats: "\<exists>usage. fst (LocalStorage_GetStatistics s shortID) = Returns (usage, None)"
    by (simp add: LocalStorage_GetStatistics_def split: option.splits)
  from save get del stats show ?thesis by blast
qed

theorem local_backend_error_free_witness:
  "valid (snd (LocalStorage_SaveURL newLocalStorage ''111'' ''http://redirection.com'' 0))
   \<and> fst (LocalStorage_SaveURL
          (snd (LocalStorage_SaveURL newLocalStorage ''111'' ''http://redirection.com'' 0))
          ''111'' ''http://other.com'' 7) = Returns None
   \<and> (\<exists>result. fst (LocalStorage_GetURL 63866188800000000000
          (snd (LocalStorage_SaveURL newLocalStorage ''111'' ''http://redirection.com'' 0))
          ''111'') = Returns (result, None))
   \<and> fst (LocalStorage_DeleteURL
          (snd (LocalStorage_SaveURL newLocalStorage ''111'' ''http://redirection.com'' 0))
          ''111'') = Returns None
   \<and> (\<exists>usage. fst (LocalStorage_GetStatistics
          (snd (LocalStorage_SaveURL newLocalStorage ''111'' ''http://redirection.com'' 0))
          ''111'') = Returns (usage, None))"
proof -
  have v: "valid (snd (LocalStorage_SaveURL newLocalStorage ''111'' ''http://redirection.com'' 0))"
    by (rule valid_SaveURL [OF valid_new])
  show ?thesis
    using v local_backend_error_free [OF v, of "''111''" "''http://other.com''" 7
        63866188800000000000]
    by simp
qed

end
